theory Spec2Isabelle
  imports Main "HOL-Library.Sublist"
begin

section \<open>JavaScript values used by the servers\<close>

text \<open>
  Strings of the source are JavaScript strings. They are modelled as \<open>string\<close>, one
  \<open>char\<close> per code unit, which covers the code units below 256; every string the
  source compares against (\<open>select\<close>, \<open>postgresql://\<close>, \<open>default\<close>) is ASCII.
\<close>

text \<open>\<open>String.prototype.trim\<close>: the white space and line terminators below code unit 256.\<close>

definition js_whitespace :: "char \<Rightarrow> bool" where
  "js_whitespace c \<longleftrightarrow>
     c \<in> set [CHR 0x09, CHR 0x0A, CHR 0x0B, CHR 0x0C, CHR 0x0D, CHR 0x20, CHR 0xA0]"

definition trimStart :: "string \<Rightarrow> string" where
  "trimStart s = dropWhile js_whitespace s"

definition trimEnd :: "string \<Rightarrow> string" where
  "trimEnd s = rev (dropWhile js_whitespace (rev s))"

definition trim :: "string \<Rightarrow> string" where
  "trim s = trimEnd (trimStart s)"

text \<open>
  \<open>String.prototype.toLowerCase\<close> on code units below 256: \<open>A\<close>..\<open>Z\<close> and the
  Latin-1 capitals \<open>0xC0\<close>..\<open>0xDE\<close> (without the multiplication sign \<open>0xD7\<close>) move up
  by 32, every other code unit stays.
\<close>

definition lower_char :: "char \<Rightarrow> char" where
  "lower_char c =
     (let n = (of_char c :: nat)
      in if (65 \<le> n \<and> n \<le> 90) \<or> (192 \<le> n \<and> n \<le> 222 \<and> n \<noteq> 215)
         then char_of (n + 32) else c)"

definition toLowerCase :: "string \<Rightarrow> string" where
  "toLowerCase s = map lower_char s"

definition startsWith :: "string \<Rightarrow> string \<Rightarrow> bool" where
  "startsWith s p \<longleftrightarrow> prefix p s"

text \<open>Decimal rendering of a non-negative integer, as template literals produce it.\<close>

fun show_nat :: "nat \<Rightarrow> string" where
  "show_nat n =
     (if n < 10 then [char_of (48 + n)]
      else show_nat (n div 10) @ [char_of (48 + n mod 10)])"

declare show_nat.simps [simp del]

text \<open>
  The values \<open>JSON.parse\<close> produces, with numbers restricted to integers. An object
  lists its members as \<open>Object.entries\<close> enumerates them, each key once.
\<close>

datatype json =
    JNull
  | JBool bool
  | JNum int
  | JStr string
  | JArr "json list"
  | JObj "(string \<times> json) list"

text \<open>
  What an expression of the source can evaluate to where the TypeScript type says
  \<open>string | null\<close>. A plain object literal \<open>{}\<close> inherits from \<open>Object.prototype\<close>, so an
  index expression \<open>obj[key]\<close> whose key is no own property yields the inherited member
  when \<open>key\<close> names one (\<open>ProtoMember\<close>: a function or object, never a string), and
  \<open>undefined\<close> otherwise.
\<close>

datatype js_value =
    Undefined
  | Null
  | Str string
  | ProtoMember string

fun truthy :: "js_value \<Rightarrow> bool" where
  "truthy Undefined = False"
| "truthy Null = False"
| "truthy (Str s) = (s \<noteq> [])"
| "truthy (ProtoMember k) = True"

definition Object_prototype_names :: "string list" where
  "Object_prototype_names =
     [''constructor'', ''__defineGetter__'', ''__defineSetter__'', ''hasOwnProperty'',
      ''__lookupGetter__'', ''__lookupSetter__'', ''isPrototypeOf'',
      ''propertyIsEnumerable'', ''toString'', ''valueOf'', ''__proto__'',
      ''toLocaleString'']"

text \<open>
  A \<open>Record<string, string>\<close> built from \<open>{}\<close>: its own properties, each key once.
  \<open>js_get\<close> is the index expression \<open>obj[k]\<close>, \<open>js_set\<close> the assignment
  \<open>obj[k] = v\<close> of a string \<open>v\<close> (the inherited \<open>__proto__\<close> setter ignores a string,
  so that assignment creates no own property).
\<close>

type_synonym js_record = "(string \<times> string) list"

definition js_get :: "js_record \<Rightarrow> string \<Rightarrow> js_value" where
  "js_get obj k =
     (case map_of obj k of
        Some v \<Rightarrow> Str v
      | None \<Rightarrow> if k \<in> set Object_prototype_names then ProtoMember k else Undefined)"

definition js_set :: "js_record \<Rightarrow> string \<Rightarrow> string \<Rightarrow> js_record" where
  "js_set obj k v =
     (if k = ''__proto__'' then obj
      else if k \<in> fst ` set obj then map (\<lambda>(k', v'). if k' = k then (k', v) else (k', v')) obj
      else obj @ [(k, v)])"

text \<open>\<open>x || null\<close>\<close>

definition or_null :: "js_value \<Rightarrow> js_value" where
  "or_null x = (if truthy x then x else Null)"

section \<open>PostgreSQL server: named connections (\<open>utils/config.ts\<close>, \<open>tools/connections.ts\<close>)\<close>

text \<open>
  An environment variable holding JSON text is represented by what \<open>JSON.parse\<close> makes
  of it: \<open>Malformed\<close> when it throws, \<open>Text v\<close> when it returns \<open>v\<close>. The empty string
  is the falsy value \<open>Empty\<close>, for which the source does not call the parser.
\<close>

datatype json_text = Empty | Malformed | Text json

record pg_env =
  PG_DB_MAP :: "json_text option"
  PG_CONNECTION_STRING :: "string option"

record DatabaseConfig =
  connections :: js_record
  default_name :: "string option"

text \<open>\<open>Object.entries\<close>; it throws a \<open>TypeError\<close> on \<open>null\<close> (\<open>None\<close>).\<close>

fun Object_entries :: "json \<Rightarrow> (string \<times> json) list option" where
  "Object_entries JNull = None"
| "Object_entries (JBool b) = Some []"
| "Object_entries (JNum n) = Some []"
| "Object_entries (JStr s) = Some (zip (map show_nat [0..<length s]) (map (\<lambda>c. JStr [c]) s))"
| "Object_entries (JArr xs) = Some (zip (map show_nat [0..<length xs]) xs)"
| "Object_entries (JObj kvs) = Some kvs"

text \<open>\<open>dbMap.default\<close> when it is a non-empty string, as both loaders test it.\<close>

fun default_string :: "json \<Rightarrow> string option" where
  "default_string (JObj kvs) =
     (case map_of kvs ''default'' of
        Some (JStr d) \<Rightarrow> if d = [] then None else Some d
      | _ \<Rightarrow> None)"
| "default_string _ = None"

text \<open>The loop of \<open>loadConfig\<close> in \<open>utils/config.ts\<close>: keys are lower-cased.\<close>

fun extract_connections :: "(string \<times> json) list \<Rightarrow> js_record \<Rightarrow> js_record" where
  "extract_connections [] acc = acc"
| "extract_connections ((key, JStr v) # rest) acc =
     extract_connections rest
       (if key \<noteq> ''default'' then js_set acc (toLowerCase key) v else acc)"
| "extract_connections ((key, _) # rest) acc = extract_connections rest acc"

definition empty_config :: DatabaseConfig where
  "empty_config = \<lparr>connections = [], default_name = None\<rparr>"

definition parse_db_map :: "json \<Rightarrow> DatabaseConfig" where
  "parse_db_map dbMap =
     (case Object_entries dbMap of
        None \<Rightarrow> empty_config
      | Some entries \<Rightarrow>
          (let conns = extract_connections entries []
           in \<lparr>connections = conns,
               default_name =
                 (case default_string dbMap of
                    None \<Rightarrow> None
                  | Some d \<Rightarrow>
                      if truthy (js_get conns (toLowerCase d)) then Some (toLowerCase d)
                      else None)\<rparr>))"

text \<open>
  \<open>loadConfig\<close> of \<open>utils/config.ts\<close>. Its \<open>catch\<close> only logs: after a parse error,
  or a \<open>TypeError\<close> of \<open>Object.entries\<close>, the configuration built so far is empty.
\<close>

definition loadConfig :: "pg_env \<Rightarrow> DatabaseConfig" where
  "loadConfig e =
     (let config =
            (case PG_DB_MAP e of
               Some (Text dbMap) \<Rightarrow> parse_db_map dbMap
             | _ \<Rightarrow> empty_config)
      in case PG_CONNECTION_STRING e of
           Some cs \<Rightarrow>
             if connections config = [] \<and> cs \<noteq> []
             then \<lparr>connections = js_set (connections config) ''default'' cs,
                   default_name = Some ''default''\<rparr>
             else config
         | None \<Rightarrow> config)"

text \<open>
  The module state of \<open>utils/config.ts\<close> (\<open>configCache\<close>) together with the process
  environment it reads.
\<close>

record pg_process =
  env :: pg_env
  configCache :: "DatabaseConfig option"

text \<open>The last line of \<open>utils/config.ts\<close>, run when the module is imported.\<close>

definition module_init :: "pg_env \<Rightarrow> pg_process" where
  "module_init e = \<lparr>env = e, configCache = Some (loadConfig e)\<rparr>"

definition getConnectionString :: "string \<Rightarrow> pg_process \<Rightarrow> js_value \<times> pg_process" where
  "getConnectionString name p =
     (if name \<noteq> [] \<and> startsWith name ''postgresql://'' then (Str name, p)
      else
        (let cfg = (case configCache p of None \<Rightarrow> loadConfig (env p) | Some c \<Rightarrow> c);
             p' = p\<lparr>configCache := Some cfg\<rparr>;
             by_name = or_null (js_get (connections cfg) (toLowerCase name))
         in case default_name cfg of
              Some d \<Rightarrow>
                if name = [] \<and> d \<noteq> [] then (or_null (js_get (connections cfg) d), p')
                else (by_name, p')
            | None \<Rightarrow> (by_name, p')))"

subsection \<open>\<open>tools/connections.ts\<close>\<close>

text \<open>
  \<open>tools/connections.ts\<close> has a loader of its own: keys are kept as written, the default
  is taken as it stands, and there is no fallback to \<open>PG_CONNECTION_STRING\<close>.
\<close>

fun tools_extract_connections :: "(string \<times> json) list \<Rightarrow> js_record \<Rightarrow> js_record" where
  "tools_extract_connections [] acc = acc"
| "tools_extract_connections ((key, JStr v) # rest) acc =
     tools_extract_connections rest (if key \<noteq> ''default'' then js_set acc key v else acc)"
| "tools_extract_connections ((key, _) # rest) acc = tools_extract_connections rest acc"

definition tools_loadConfig :: "pg_env \<Rightarrow> DatabaseConfig" where
  "tools_loadConfig e =
     (case PG_DB_MAP e of
        Some (Text dbMap) \<Rightarrow>
          (case Object_entries dbMap of
             None \<Rightarrow> empty_config
           | Some entries \<Rightarrow>
               \<lparr>connections = tools_extract_connections entries [],
                default_name = default_string dbMap\<rparr>)
      | _ \<Rightarrow> empty_config)"

text \<open>\<open>JSON.stringify(config)\<close>, as the value \<open>JSON.parse\<close> reads back from it.\<close>

definition stringify_config :: "DatabaseConfig \<Rightarrow> json" where
  "stringify_config c =
     JObj [(''connections'', JObj (map (\<lambda>(k, v). (k, JStr v)) (connections c))),
           (''default'', case default_name c of None \<Rightarrow> JNull | Some d \<Rightarrow> JStr d)]"

definition saveConfig :: "DatabaseConfig \<Rightarrow> pg_process \<Rightarrow> bool \<times> pg_process" where
  "saveConfig c p = (True, p\<lparr>env := (env p)\<lparr>PG_DB_MAP := Some (Text (stringify_config c))\<rparr>\<rparr>)"

record ConnectionResult =
  cr_success :: bool
  cr_message :: string
  cr_details :: json

definition addDatabaseConnection ::
  "string \<Rightarrow> string \<Rightarrow> pg_process \<Rightarrow> ConnectionResult \<times> pg_process" where
  \<open>addDatabaseConnection name connStr p =
     (let config = tools_loadConfig (env p);
          config1 = config\<lparr>connections := js_set (connections config) name connStr\<rparr>;
          config2 = (case default_name config1 of
                       None \<Rightarrow> config1\<lparr>default_name := Some name\<rparr>
                     | Some d \<Rightarrow> if d = [] then config1\<lparr>default_name := Some name\<rparr> else config1);
          (saved, p') = saveConfig config2 p
      in if \<not> saved
         then (\<lparr>cr_success = False,
                cr_message = ''Failed to add database connection: Failed to save configuration'',
                cr_details = JNull\<rparr>, p')
         else (\<lparr>cr_success = True,
                cr_message = ''Added database connection "'' @ name @ ''"'',
                cr_details = JObj [(''name'', JStr name), (''connectionString'', JStr connStr),
                  (''note'', JStr ''Connection added in memory. To make permanent, update ~/.cursor/mcp.json'')]\<rparr>,
               p'))\<close>

text \<open>
  What the process does to the named-connection state after start-up: tool calls that add a
  connection, and lookups by the database adapter.
\<close>

datatype pg_op = AddConnection string string | Lookup string

fun pg_step :: "pg_op \<Rightarrow> pg_process \<Rightarrow> pg_process" where
  "pg_step (AddConnection name connStr) p = snd (addDatabaseConnection name connStr p)"
| "pg_step (Lookup name) p = snd (getConnectionString name p)"

definition pg_run :: "pg_op list \<Rightarrow> pg_process \<Rightarrow> pg_process" where
  "pg_run ops p = fold pg_step ops p"

section \<open>PostgreSQL server: the database adapter (\<open>utils/connection.js\<close>)\<close>

datatype ssl_option = SslBool bool | SslRejectUnauthorized bool

record ConnectionOptions =
  maxConnections :: "nat option"
  idleTimeoutMillis :: "nat option"
  connectionTimeoutMillis :: "nat option"
  statementTimeout :: "nat option"
  queryTimeout :: "nat option"
  ssl :: "ssl_option option"

definition no_options :: ConnectionOptions where
  "no_options = \<lparr>maxConnections = None, idleTimeoutMillis = None,
     connectionTimeoutMillis = None, statementTimeout = None, queryTimeout = None, ssl = None\<rparr>"

record PoolConfig =
  pc_connectionString :: js_value
  pc_max :: nat
  pc_idleTimeoutMillis :: nat
  pc_connectionTimeoutMillis :: nat
  pc_allowExitOnIdle :: bool
  pc_ssl :: ssl_option

text \<open>\<open>x || d\<close> on an optional number: \<open>undefined\<close> and \<open>0\<close> are falsy.\<close>

definition or_default :: "nat option \<Rightarrow> nat \<Rightarrow> nat" where
  "or_default x d = (case x of None \<Rightarrow> d | Some n \<Rightarrow> if n = 0 then d else n)"

definition truthy_num :: "nat option \<Rightarrow> bool" where
  "truthy_num x = (case x of None \<Rightarrow> False | Some n \<Rightarrow> n \<noteq> 0)"

definition pool_config :: "js_value \<Rightarrow> ConnectionOptions \<Rightarrow> PoolConfig" where
  "pool_config actual options =
     \<lparr>pc_connectionString = actual,
      pc_max = or_default (maxConnections options) 20,
      pc_idleTimeoutMillis = or_default (idleTimeoutMillis options) 30000,
      pc_connectionTimeoutMillis = or_default (connectionTimeoutMillis options) 2000,
      pc_allowExitOnIdle = True,
      pc_ssl = (case ssl options of None \<Rightarrow> SslRejectUnauthorized False | Some v \<Rightarrow> v)\<rparr>"

text \<open>
  The calls the adapter makes into the \<open>pg\<close> library. A \<open>Pool\<close> object is identified by
  the order of its creation (the first \<open>new Pool\<close> is pool 0), which is its reference
  identity; a leased client is named by the pool it was leased from.
\<close>

datatype pg_call =
    NewPool nat PoolConfig
  | PoolConnect nat
  | ClientQuery nat string "json list" "nat option"
  | ClientRelease nat
  | PoolEnd nat

text \<open>
  The database server and the library are a parameter: given the calls made so far and
  the call being made, the awaited promise is rejected with an error of message \<open>m\<close>
  (\<open>Inl m\<close>) or fulfilled (\<open>Inr rows\<close>, the rows for a query).
\<close>

type_synonym pg_world = "pg_call list \<Rightarrow> pg_call \<Rightarrow> string + json list"

text \<open>
  The invocations of the adapter's own methods, recorded in the order they are entered,
  as a test double of the adapter would count them.
\<close>

datatype adapter_call =
    CallConnect string ConnectionOptions
  | CallQuery string "json list"
  | CallDisconnect

text \<open>
  The module-level \<open>poolCache\<close>, the fields of the single \<open>DatabaseConnection\<close> instance
  (\<open>getInstance\<close> creates it on first use with the field values of \<open>fresh_state\<close>), the
  \<open>Pool\<close> objects created so far, the library calls made so far and the method
  invocations made so far. The listener set
  with \<open>pool.on('error', ...)\<close> runs outside any call of the adapter and is not part of
  this state.
\<close>

record pg_state =
  config_module :: pg_process
  poolCache :: "js_value \<rightharpoonup> nat"
  pool :: "nat option"
  client :: "nat option"
  connectionString :: js_value
  lastError :: "string option"
  connectionOptions :: ConnectionOptions
  pools :: "PoolConfig list"
  calls :: "pg_call list"
  adapter_log :: "adapter_call list"

definition fresh_state :: "pg_env \<Rightarrow> pg_state" where
  "fresh_state e =
     \<lparr>config_module = module_init e, poolCache = Map.empty, pool = None, client = None,
      connectionString = Str [], lastError = None, connectionOptions = no_options,
      pools = [], calls = [], adapter_log = []\<rparr>"

definition release_client :: "pg_state \<Rightarrow> pg_state" where
  "release_client s =
     (case client s of
        Some c \<Rightarrow> s\<lparr>client := None, calls := calls s @ [ClientRelease c]\<rparr>
      | None \<Rightarrow> s)"

definition entered :: "adapter_call \<Rightarrow> pg_state \<Rightarrow> pg_state" where
  "entered c s = s\<lparr>adapter_log := adapter_log s @ [c]\<rparr>"

definition disconnect :: "pg_state \<Rightarrow> pg_state" where
  "disconnect s = (release_client (entered CallDisconnect s))\<lparr>connectionString := Str []\<rparr>"

text \<open>One awaited library call: it is recorded, and the world decides its outcome.\<close>

definition pg_await :: "pg_world \<Rightarrow> pg_call \<Rightarrow> pg_state \<Rightarrow> (string + json list) \<times> pg_state" where
  "pg_await w c s = (w (calls s) c, s\<lparr>calls := calls s @ [c]\<rparr>)"

text \<open>
  The block of \<open>connect\<close> that takes the pool cached for the connection string, or
  creates one and caches it. It yields the pool now held in \<open>this.pool\<close>.
\<close>

definition use_pool :: "js_value \<Rightarrow> ConnectionOptions \<Rightarrow> pg_state \<Rightarrow> nat \<times> pg_state" where
  "use_pool actual options s =
     (case poolCache s actual of
        Some p \<Rightarrow> (p, s\<lparr>pool := Some p\<rparr>)
      | None \<Rightarrow>
          (let p = length (pools s); config = pool_config actual options
           in (p, s\<lparr>pool := Some p,
                     pools := pools s @ [config],
                     calls := calls s @ [NewPool p config],
                     poolCache := (poolCache s)(actual \<mapsto> p)\<rparr>)))"

text \<open>
  The last statements of the \<open>try\<close> block: lease a client from the pool, set the
  statement timeout when one is given, and run the test query. \<open>Inl m\<close> is a thrown
  \<open>Error\<close> of message \<open>m\<close>.
\<close>

definition test_connection ::
  "nat \<Rightarrow> ConnectionOptions \<Rightarrow> pg_world \<Rightarrow> pg_state \<Rightarrow> (string + unit) \<times> pg_state" where
  "test_connection p options w s =
     (case pg_await w (PoolConnect p) s of
        (Inl e, s1) \<Rightarrow> (Inl e, s1)
      | (Inr _, s1) \<Rightarrow>
          (let s2 = s1\<lparr>client := Some p\<rparr>;
               (r, s3) =
                 (if truthy_num (statementTimeout options)
                  then pg_await w
                         (ClientQuery p
                            (''SET statement_timeout = '' @
                               show_nat (or_default (statementTimeout options) 0))
                            [] None) s2
                  else (Inr [], s2))
           in case r of
                Inl e \<Rightarrow> (Inl e, s3)
              | Inr _ \<Rightarrow>
                  (case pg_await w (ClientQuery p ''SELECT 1'' [] None) s3 of
                     (Inl e, s4) \<Rightarrow> (Inl e, s4)
                   | (Inr _, s4) \<Rightarrow> (Inr (), s4))))"

text \<open>The \<open>try\<close> block of \<open>connect\<close>.\<close>

definition connect_try ::
  "string \<Rightarrow> ConnectionOptions \<Rightarrow> pg_world \<Rightarrow> pg_state \<Rightarrow> (string + unit) \<times> pg_state" where
  \<open>connect_try connectionStringOrName options w s =
     (let (actual, m) = getConnectionString connectionStringOrName (config_module s);
          s0 = s\<lparr>config_module := m\<rparr>
      in if \<not> truthy actual
         then (Inl (''Connection "'' @ connectionStringOrName @
                    ''" not found and no default connection available''), s0)
         else if pool s0 \<noteq> None \<and> connectionString s0 = actual then (Inr (), s0)
         else
           (let s1 = (if pool s0 \<noteq> None then disconnect s0 else s0);
                (p, s2) = use_pool actual options
                            (s1\<lparr>connectionString := actual, connectionOptions := options\<rparr>)
            in test_connection p options w s2))\<close>

text \<open>The \<open>catch\<close> block of \<open>connect\<close>, entered with the message of the caught error.\<close>

definition connect_catch :: "string \<Rightarrow> pg_world \<Rightarrow> pg_state \<Rightarrow> (string + unit) \<times> pg_state" where
  "connect_catch e w s =
     (let s1 = release_client (s\<lparr>lastError := Some e\<rparr>)
      in case pool s1 of
           None \<Rightarrow> (Inl (''Failed to connect to database: '' @ e), s1)
         | Some p \<Rightarrow>
             (case pg_await w (PoolEnd p)
                     (s1\<lparr>poolCache := (poolCache s1)(connectionString s1 := None)\<rparr>) of
                (Inl e', s2) \<Rightarrow> (Inl e', s2)
              | (Inr _, s2) \<Rightarrow>
                  (Inl (''Failed to connect to database: '' @ e), s2\<lparr>pool := None\<rparr>)))"

text \<open>\<open>connect\<close>: the \<open>try\<close> block and its \<open>catch\<close>.\<close>

definition connect ::
  "string \<Rightarrow> ConnectionOptions \<Rightarrow> pg_world \<Rightarrow> pg_state \<Rightarrow> (string + unit) \<times> pg_state" where
  "connect connectionStringOrName options w s =
     (case connect_try connectionStringOrName options w
             (entered (CallConnect connectionStringOrName options) s) of
        (Inr u, s') \<Rightarrow> (Inr (), s')
      | (Inl e, s') \<Rightarrow> connect_catch e w s')"

text \<open>\<open>query(text, values, options)\<close>; \<open>timeout\<close> is \<open>options.timeout\<close>.\<close>

definition query ::
  "string \<Rightarrow> json list \<Rightarrow> nat option \<Rightarrow> pg_world \<Rightarrow> pg_state
     \<Rightarrow> (string + json list) \<times> pg_state" where
  "query text vals timeout w s0 =
     (let s = entered (CallQuery text vals) s0
      in case (client s, pool s) of
           (Some c, Some p) \<Rightarrow>
             (let t = (if truthy_num timeout then timeout
                       else if truthy_num (queryTimeout (connectionOptions s))
                            then queryTimeout (connectionOptions s) else None)
              in case pg_await w (ClientQuery c text vals t) s of
                   (Inr rows, s') \<Rightarrow> (Inr rows, s')
                 | (Inl e, s') \<Rightarrow> (Inl (''Query failed: '' @ e), s'\<lparr>lastError := Some e\<rparr>))
         | _ \<Rightarrow> (Inl ''Not connected to database'', s))"

section \<open>PostgreSQL server: the read-only query tool (\<open>tools/query.ts\<close>)\<close>

text \<open>
  The result of the tool is \<open>Inr\<close> of the object it returns; \<open>Inl\<close> would be an
  exception leaving the function. The \<open>catch\<close> turns every exception of the \<open>try\<close>
  block into a failure object, and the \<open>finally\<close> block runs \<open>disconnect\<close>, in which
  \<open>client.release()\<close> is taken not to throw.
\<close>

record QueryResult =
  qr_success :: bool
  qr_message :: string
  qr_details :: "json list option"

definition executeQuery ::
  "string \<Rightarrow> string \<Rightarrow> json list \<Rightarrow> pg_world \<Rightarrow> pg_state
     \<Rightarrow> (string + QueryResult) \<times> pg_state" where
  "executeQuery connStr q params w s =
     (if \<not> startsWith (toLowerCase (trim q)) ''select''
      then (Inr \<lparr>qr_success = False,
                 qr_message = ''Only SELECT queries are allowed for security reasons'',
                 qr_details = None\<rparr>, s)
      else
        (let (r, s1) =
               (case connect connStr (no_options\<lparr>ssl := Some (SslRejectUnauthorized False)\<rparr>) w s of
                  (Inl e, s') \<Rightarrow> (Inl e, s')
                | (Inr _, s') \<Rightarrow> query q params None w s');
             result =
               (case r of
                  Inr rows \<Rightarrow>
                    \<lparr>qr_success = True,
                     qr_message = ''Query executed successfully. Returned '' @
                                  show_nat (length rows) @ '' rows.'',
                     qr_details = Some rows\<rparr>
                | Inl e \<Rightarrow>
                    \<lparr>qr_success = False,
                     qr_message = ''Failed to execute query: '' @ e,
                     qr_details = None\<rparr>)
         in (Inr result, disconnect s1)))"

section \<open>Errors, console output and the process, shared by the servers\<close>

datatype http_method = GET | POST

record http_request =
  rq_method :: http_method
  rq_url :: string
  rq_body :: "json option"

text \<open>
  The configuration of an \<open>axios\<close> instance, as passed to \<open>axios.create\<close>. The
  library attaches it to every request, and to the error of a failed request as
  \<open>error.config\<close>.
\<close>

record axios_config =
  cfg_baseURL :: string
  cfg_headers :: "(string \<times> string) list"

record axios_response =
  resp_status :: nat
  resp_data :: json

record axios_error =
  ax_message :: string
  ax_response :: "axios_response option"
  ax_config :: axios_config

datatype mcp_code = InvalidRequest | InternalError

text \<open>
  The values the source throws and catches: \<open>Error\<close> objects by class, carrying their
  message (and status or code), and any other thrown value.
\<close>

datatype thrown =
    Error string
  | N8nClientError string "nat option"
  | GeminiClientError string string
  | McpError string mcp_code
  | AxiosError axios_error
  | OtherValue json

fun json_truthy :: "json \<Rightarrow> bool" where
  "json_truthy JNull = False"
| "json_truthy (JBool b) = b"
| "json_truthy (JNum n) = (n \<noteq> 0)"
| "json_truthy (JStr s) = (s \<noteq> [])"
| "json_truthy (JArr xs) = True"
| "json_truthy (JObj kvs) = True"

text \<open>
  The property \<open>v.message\<close> of a parsed JSON value; \<open>None\<close> is \<open>undefined\<close>. Only an
  object can own it, and no prototype provides it.
\<close>

fun json_message :: "json \<Rightarrow> json option" where
  "json_message (JObj kvs) = map_of kvs ''message''"
| "json_message _ = None"

definition show_int :: "int \<Rightarrow> string" where
  "show_int i = (if i < 0 then ''-'' @ show_nat (nat (- i)) else show_nat (nat i))"

definition join_comma :: "string list \<Rightarrow> string" where
  "join_comma xs = (case xs of [] \<Rightarrow> [] | y # ys \<Rightarrow> y @ concat (map (\<lambda>z. '','' @ z) ys))"

text \<open>\<open>String(v)\<close>, the conversion a template literal applies.\<close>

fun js_String :: "json \<Rightarrow> string" where
  "js_String JNull = ''null''"
| "js_String (JBool b) = (if b then ''true'' else ''false'')"
| "js_String (JNum n) = show_int n"
| "js_String (JStr s) = s"
| "js_String (JArr xs) = join_comma (map (\<lambda>x. if x = JNull then [] else js_String x) xs)"
| "js_String (JObj kvs) = ''[object Object]''"

definition String_opt :: "json option \<Rightarrow> string" where
  "String_opt v = (case v of None \<Rightarrow> ''undefined'' | Some x \<Rightarrow> js_String x)"

text \<open>\<open>error.message\<close> of a caught value.\<close>

fun thrown_message :: "thrown \<Rightarrow> json option" where
  "thrown_message (Error m) = Some (JStr m)"
| "thrown_message (N8nClientError m st) = Some (JStr m)"
| "thrown_message (GeminiClientError m c) = Some (JStr m)"
| "thrown_message (McpError m c) = Some (JStr m)"
| "thrown_message (AxiosError e) = Some (JStr (ax_message e))"
| "thrown_message (OtherValue v) = json_message v"

text \<open>\<open>a || b\<close> on a possibly undefined value.\<close>

definition or_else :: "json option \<Rightarrow> json option \<Rightarrow> json option" where
  "or_else a b = (case a of Some v \<Rightarrow> if json_truthy v then a else b | None \<Rightarrow> b)"

text \<open>
  Console output: the stream and the arguments of each \<open>console.log\<close> (standard output)
  and \<open>console.error\<close> (standard error) call. An argument is a string, or a value that
  the runtime prints by inspection.
\<close>

datatype stream = Stdout | Stderr

datatype log_arg =
    LStr string
  | LThrown thrown
  | LStack thrown
  | LPromise

type_synonym console = "(stream \<times> log_arg list) list"

text \<open>
  The strings the runtime prints when it inspects a thrown value: the message and, by
  Node's default inspection depth of two nested levels, the own properties of the error
  down to \<open>error.config.headers\<close> and \<open>error.response.data\<close>.
\<close>

fun json_strings :: "json \<Rightarrow> string list" where
  "json_strings (JStr s) = [s]"
| "json_strings (JObj kvs) = concat (map (\<lambda>(k, v). case v of JStr s \<Rightarrow> [s] | _ \<Rightarrow> []) kvs)"
| "json_strings _ = []"

fun inspected :: "thrown \<Rightarrow> string list" where
  "inspected (Error m) = [m]"
| "inspected (N8nClientError m st) = [m]"
| "inspected (GeminiClientError m c) = [m, c]"
| "inspected (McpError m c) = [m]"
| "inspected (AxiosError e) =
     ax_message e # cfg_baseURL (ax_config e) # map snd (cfg_headers (ax_config e)) @
     (case ax_response e of None \<Rightarrow> [] | Some r \<Rightarrow> json_strings (resp_data r))"
| "inspected (OtherValue v) = json_strings v"

text \<open>Of a stack trace only the message in its first line is kept.\<close>

fun printed :: "log_arg \<Rightarrow> string list" where
  "printed (LStr s) = [s]"
| "printed (LThrown t) = inspected t"
| "printed (LStack (OtherValue v)) = [''undefined'']"
| "printed (LStack t) = [String_opt (thrown_message t)]"
| "printed LPromise = []"

text \<open>A secret appears in the console output when some printed string contains it.\<close>

definition console_mentions :: "console \<Rightarrow> string \<Rightarrow> bool" where
  "console_mentions out secret =
     list_ex (\<lambda>line. list_ex (\<lambda>arg. list_ex (sublist secret) (printed arg)) (snd line)) out"

text \<open>
  A server process: its console output, the exit code once \<open>process.exit\<close> has been
  called, and whether the transport is connected, that is, whether requests are accepted.
\<close>

record process =
  pr_console :: console
  pr_exit :: "nat option"
  pr_serving :: bool

definition started :: process where
  "started = \<lparr>pr_console = [], pr_exit = None, pr_serving = False\<rparr>"

definition console_log :: "log_arg list \<Rightarrow> process \<Rightarrow> process" where
  "console_log args p = p\<lparr>pr_console := pr_console p @ [(Stdout, args)]\<rparr>"

definition console_error :: "log_arg list \<Rightarrow> process \<Rightarrow> process" where
  "console_error args p = p\<lparr>pr_console := pr_console p @ [(Stderr, args)]\<rparr>"

definition process_exit :: "nat \<Rightarrow> process \<Rightarrow> process" where
  "process_exit code p = p\<lparr>pr_exit := Some code, pr_serving := False\<rparr>"

section \<open>n8n server: the API client (\<open>utils/n8nClient.ts\<close>)\<close>

record n8n_env =
  N8N_BASE_URL :: "string option"
  N8N_API_KEY :: "string option"

record N8nClient =
  nc_client :: axios_config
  nc_baseURL :: string
  nc_apiKey :: string

text \<open>\<open>process.env.X || ''\<close>\<close>

definition env_or_empty :: "string option \<Rightarrow> string" where
  "env_or_empty v = (case v of None \<Rightarrow> [] | Some s \<Rightarrow> s)"

definition new_N8nClient :: "n8n_env \<Rightarrow> thrown + N8nClient" where
  "new_N8nClient e =
     (let baseURL = env_or_empty (N8N_BASE_URL e); apiKey = env_or_empty (N8N_API_KEY e)
      in if baseURL = [] \<or> apiKey = []
         then Inl (N8nClientError
                ''Missing n8n configuration. Please set N8N_BASE_URL and N8N_API_KEY environment variables.''
                None)
         else Inr \<lparr>nc_client = \<lparr>cfg_baseURL = baseURL,
                                   cfg_headers = [(''Content-Type'', ''application/json''),
                                                  (''X-N8N-API-KEY'', apiKey)]\<rparr>,
                   nc_baseURL = baseURL, nc_apiKey = apiKey\<rparr>)"

text \<open>
  The remote side is a parameter: what awaiting a request of an \<open>axios\<close> instance yields,
  the \<open>data\<close> of the response (\<open>Inr\<close>) or the rejection (\<open>Inl\<close>).
\<close>

type_synonym n8n_world = "axios_config \<Rightarrow> http_request \<Rightarrow> thrown + json"

text \<open>
  The console of the n8n process, the requests sent through the client and the tool
  functions entered, in order.
\<close>

record n8n_state =
  n_console :: console
  n_requests :: "http_request list"
  n_tools :: "string list"

text \<open>Reading \<open>error.message\<close> of a thrown \<open>null\<close> throws a \<open>TypeError\<close> itself.\<close>

definition null_message_TypeError :: thrown where
  "null_message_TypeError = Error ''Cannot read properties of null (reading 'message')''"

text \<open>
  \<open>handleApiError\<close> has return type \<open>never\<close>: its result is the error it throws.
\<close>

definition handleApiError :: "thrown \<Rightarrow> string \<Rightarrow> n8n_state \<Rightarrow> thrown \<times> n8n_state" where
  "handleApiError error message s =
     (let s' = s\<lparr>n_console := n_console s @ [(Stderr, [LStr ''API Error:'', LThrown error])]\<rparr>
      in case error of
           AxiosError e \<Rightarrow>
             (let status = (case ax_response e of
                              None \<Rightarrow> 500
                            | Some r \<Rightarrow> if resp_status r = 0 then 500 else resp_status r);
                  responseData = (case ax_response e of
                                    None \<Rightarrow> JObj []
                                  | Some r \<Rightarrow> if json_truthy (resp_data r) then resp_data r
                                              else JObj [])
              in if status = 401 \<or> status = 403
                 then (N8nClientError ''Authentication failed. Please check your API key.''
                         (Some status), s')
                 else if status = 404
                 then (N8nClientError ''Resource not found. Please check the ID.'' (Some status), s')
                 else (N8nClientError
                         (message @ '': '' @
                            String_opt (or_else (json_message responseData)
                                                (Some (JStr (ax_message e)))))
                         (Some status), s'))
         | OtherValue JNull \<Rightarrow> (null_message_TypeError, s')
         | _ \<Rightarrow>
             (N8nClientError
                (message @ '': '' @
                   String_opt (or_else (thrown_message error) (Some (JStr ''Unknown error''))))
                None, s'))"

text \<open>
  The seven methods of the client share one shape: await the request and return
  \<open>response.data\<close>, or hand the caught error to \<open>handleApiError\<close>.
\<close>

definition api_call ::
  "N8nClient \<Rightarrow> http_request \<Rightarrow> string \<Rightarrow> n8n_world \<Rightarrow> n8n_state \<Rightarrow> (thrown + json) \<times> n8n_state" where
  "api_call c rq failure w s =
     (let s' = s\<lparr>n_requests := n_requests s @ [rq]\<rparr>
      in case w (nc_client c) rq of
           Inr data \<Rightarrow> (Inr data, s')
         | Inl error \<Rightarrow> (case handleApiError error failure s' of (e, s'') \<Rightarrow> (Inl e, s'')))"

definition client_listWorkflows ::
  "N8nClient \<Rightarrow> n8n_world \<Rightarrow> n8n_state \<Rightarrow> (thrown + json) \<times> n8n_state" where
  "client_listWorkflows c =
     api_call c \<lparr>rq_method = GET, rq_url = ''/api/v1/workflows'', rq_body = None\<rparr>
       ''Failed to list workflows''"

definition client_getWorkflow ::
  "N8nClient \<Rightarrow> string \<Rightarrow> n8n_world \<Rightarrow> n8n_state \<Rightarrow> (thrown + json) \<times> n8n_state" where
  "client_getWorkflow c ident =
     api_call c \<lparr>rq_method = GET, rq_url = ''/api/v1/workflows/'' @ ident, rq_body = None\<rparr>
       (''Failed to get workflow with ID: '' @ ident)"

definition client_activateWorkflow ::
  "N8nClient \<Rightarrow> string \<Rightarrow> n8n_world \<Rightarrow> n8n_state \<Rightarrow> (thrown + json) \<times> n8n_state" where
  "client_activateWorkflow c ident =
     api_call c \<lparr>rq_method = POST, rq_url = ''/api/v1/workflows/'' @ ident @ ''/activate'',
                 rq_body = None\<rparr>
       (''Failed to activate workflow with ID: '' @ ident)"

definition client_deactivateWorkflow ::
  "N8nClient \<Rightarrow> string \<Rightarrow> n8n_world \<Rightarrow> n8n_state \<Rightarrow> (thrown + json) \<times> n8n_state" where
  "client_deactivateWorkflow c ident =
     api_call c \<lparr>rq_method = POST, rq_url = ''/api/v1/workflows/'' @ ident @ ''/deactivate'',
                 rq_body = None\<rparr>
       (''Failed to deactivate workflow with ID: '' @ ident)"

definition client_executeWorkflow ::
  "N8nClient \<Rightarrow> string \<Rightarrow> json \<Rightarrow> n8n_world \<Rightarrow> n8n_state \<Rightarrow> (thrown + json) \<times> n8n_state" where
  "client_executeWorkflow c ident payload =
     api_call c \<lparr>rq_method = POST, rq_url = ''/api/v1/workflows/'' @ ident @ ''/execute'',
                 rq_body = Some payload\<rparr>
       (''Failed to execute workflow with ID: '' @ ident)"

definition client_listWorkflowExecutions ::
  "N8nClient \<Rightarrow> string \<Rightarrow> n8n_world \<Rightarrow> n8n_state \<Rightarrow> (thrown + json) \<times> n8n_state" where
  "client_listWorkflowExecutions c ident =
     api_call c \<lparr>rq_method = GET, rq_url = ''/api/v1/workflows/'' @ ident @ ''/executions'',
                 rq_body = None\<rparr>
       (''Failed to list executions for workflow with ID: '' @ ident)"

definition client_getExecution ::
  "N8nClient \<Rightarrow> string \<Rightarrow> n8n_world \<Rightarrow> n8n_state \<Rightarrow> (thrown + json) \<times> n8n_state" where
  "client_getExecution c ident =
     api_call c \<lparr>rq_method = GET, rq_url = ''/api/v1/executions/'' @ ident, rq_body = None\<rparr>
       (''Failed to get execution with ID: '' @ ident)"

section \<open>n8n server: the tool functions (\<open>tools/workflows.ts\<close>)\<close>

text \<open>The parameter object of a tool, by its TypeScript type \<open>{ id: string, data?: any }\<close>.\<close>

record tool_params =
  tp_id :: string
  tp_data :: "json option"

text \<open>
  Every tool function constructs a client and calls one method; a throwing constructor
  or method ends the function with that exception.
\<close>

definition with_client ::
  "string \<Rightarrow> n8n_env \<Rightarrow> (N8nClient \<Rightarrow> n8n_world \<Rightarrow> n8n_state \<Rightarrow> (thrown + json) \<times> n8n_state)
     \<Rightarrow> n8n_world \<Rightarrow> n8n_state \<Rightarrow> (thrown + json) \<times> n8n_state" where
  "with_client tool e method w s =
     (let s' = s\<lparr>n_tools := n_tools s @ [tool]\<rparr>
      in case new_N8nClient e of
           Inl err \<Rightarrow> (Inl err, s')
         | Inr c \<Rightarrow> method c w s')"

definition listWorkflows :: "n8n_env \<Rightarrow> n8n_world \<Rightarrow> n8n_state \<Rightarrow> (thrown + json) \<times> n8n_state" where
  "listWorkflows e = with_client ''listWorkflows'' e client_listWorkflows"

definition getWorkflow ::
  "tool_params \<Rightarrow> n8n_env \<Rightarrow> n8n_world \<Rightarrow> n8n_state \<Rightarrow> (thrown + json) \<times> n8n_state" where
  "getWorkflow params e = with_client ''getWorkflow'' e (\<lambda>c. client_getWorkflow c (tp_id params))"

definition activateWorkflow ::
  "tool_params \<Rightarrow> n8n_env \<Rightarrow> n8n_world \<Rightarrow> n8n_state \<Rightarrow> (thrown + json) \<times> n8n_state" where
  "activateWorkflow params e =
     with_client ''activateWorkflow'' e (\<lambda>c. client_activateWorkflow c (tp_id params))"

definition deactivateWorkflow ::
  "tool_params \<Rightarrow> n8n_env \<Rightarrow> n8n_world \<Rightarrow> n8n_state \<Rightarrow> (thrown + json) \<times> n8n_state" where
  "deactivateWorkflow params e =
     with_client ''deactivateWorkflow'' e (\<lambda>c. client_deactivateWorkflow c (tp_id params))"

definition executeWorkflow ::
  "tool_params \<Rightarrow> n8n_env \<Rightarrow> n8n_world \<Rightarrow> n8n_state \<Rightarrow> (thrown + json) \<times> n8n_state" where
  "executeWorkflow params e =
     with_client ''executeWorkflow'' e
       (\<lambda>c. client_executeWorkflow c (tp_id params)
               (case tp_data params of None \<Rightarrow> JObj [] | Some d \<Rightarrow> d))"

definition listWorkflowExecutions ::
  "tool_params \<Rightarrow> n8n_env \<Rightarrow> n8n_world \<Rightarrow> n8n_state \<Rightarrow> (thrown + json) \<times> n8n_state" where
  "listWorkflowExecutions params e =
     with_client ''listWorkflowExecutions'' e
       (\<lambda>c. client_listWorkflowExecutions c (tp_id params))"

definition getExecution ::
  "tool_params \<Rightarrow> n8n_env \<Rightarrow> n8n_world \<Rightarrow> n8n_state \<Rightarrow> (thrown + json) \<times> n8n_state" where
  "getExecution params e = with_client ''getExecution'' e (\<lambda>c. client_getExecution c (tp_id params))"

section \<open>n8n server: the dispatcher (\<open>handleTool\<close>)\<close>

text \<open>The names of \<open>TOOL_DEFINITIONS\<close>, the registry handed to \<open>createServer\<close>.\<close>

definition TOOL_DEFINITIONS :: "string list" where
  "TOOL_DEFINITIONS =
     [''mcp_list_workflows'', ''mcp_get_workflow'', ''mcp_activate_workflow'',
      ''mcp_deactivate_workflow'', ''mcp_execute_workflow'', ''mcp_list_workflow_executions'',
      ''mcp_get_execution'']"

record tool_request =
  tr_name :: string
  tr_parameters :: tool_params

text \<open>The \<open>switch\<close> inside the \<open>try\<close> block of \<open>handleTool\<close>.\<close>

definition handleTool_switch ::
  "tool_request \<Rightarrow> n8n_env \<Rightarrow> n8n_world \<Rightarrow> n8n_state \<Rightarrow> (thrown + json) \<times> n8n_state" where
  "handleTool_switch request e w s =
     (let name = tr_name request; parameters = tr_parameters request
      in if name = ''mcp_list_workflows'' then listWorkflows e w s
         else if name = ''mcp_get_workflow'' then getWorkflow parameters e w s
         else if name = ''mcp_activate_workflow'' then activateWorkflow parameters e w s
         else if name = ''mcp_deactivate_workflow'' then deactivateWorkflow parameters e w s
         else if name = ''mcp_execute_workflow'' then executeWorkflow parameters e w s
         else if name = ''mcp_list_workflow_executions''
         then listWorkflowExecutions parameters e w s
         else if name = ''mcp_get_execution'' then getExecution parameters e w s
         else (Inl (McpError (''Unknown tool: '' @ name) InvalidRequest), s))"

text \<open>\<open>handleTool\<close>: the \<open>switch\<close> and the \<open>catch\<close> around it.\<close>

definition handleTool ::
  "tool_request \<Rightarrow> n8n_env \<Rightarrow> n8n_world \<Rightarrow> n8n_state \<Rightarrow> (thrown + json) \<times> n8n_state" where
  "handleTool request e w s =
     (case handleTool_switch request e w s of
        (Inr result, s') \<Rightarrow> (Inr result, s')
      | (Inl (McpError m c), s') \<Rightarrow> (Inl (McpError m c), s')
      | (Inl (OtherValue JNull), s') \<Rightarrow>
          (Inl null_message_TypeError,
           s'\<lparr>n_console := n_console s' @
                 [(Stderr, [LStr (''Error executing tool '' @ tr_name request @ '':''),
                            LThrown (OtherValue JNull)])]\<rparr>)
      | (Inl error, s') \<Rightarrow>
          (Inl (McpError (''Error executing tool '' @ tr_name request @ '': '' @
                            String_opt (thrown_message error)) InternalError),
           s'\<lparr>n_console := n_console s' @
                 [(Stderr, [LStr (''Error executing tool '' @ tr_name request @ '':''),
                            LThrown error])]\<rparr>))"

text \<open>How a tool function built with \<open>with_client\<close> ends.\<close>

definition tool_outcome ::
  "string \<Rightarrow> n8n_state \<Rightarrow> (thrown + json) \<times> n8n_state \<Rightarrow> bool" where
  "tool_outcome tool s out \<longleftrightarrow>
     n_tools (snd out) = n_tools s @ [tool] \<and>
     (case fst out of
        Inr d \<Rightarrow> True
      | Inl t \<Rightarrow> (\<exists>m st. t = N8nClientError m st) \<or> t = null_message_TypeError)"


section \<open>n8n server: start-up and process-level handlers (\<open>index.ts\<close>)\<close>

text \<open>
  The outcome of \<open>server.connect(transport)\<close> is a parameter: \<open>None\<close> when the promise is
  fulfilled, \<open>Some error\<close> when it is rejected.
\<close>

definition n8n_main :: "n8n_env \<Rightarrow> thrown option \<Rightarrow> process" where
  "n8n_main e transport =
     (let p1 = console_log [LStr ''Starting n8n MCP server...''] started;
          p2 = console_log
                 [LStr (''Using n8n instance: '' @
                        (case N8N_BASE_URL e of None \<Rightarrow> ''undefined'' | Some u \<Rightarrow> u))] p1
      in case transport of
           None \<Rightarrow> console_log [LStr ''Server ready''] (p2\<lparr>pr_serving := True\<rparr>)
         | Some error \<Rightarrow>
             process_exit 1 (console_error [LStr ''Failed to start server:'', LThrown error] p2))"

text \<open>
  The seven \<open>server.tool\<close> registrations of \<open>index.ts\<close>: the tool name and its
  callback. A callback passes the validated parameters on (\<open>id\<close>, and \<open>data\<close> for the
  execution tool), awaits the tool function and answers with \<open>JSON.stringify(result)\<close>
  as text; \<open>Inr result\<close> stands for that answer. No callback has a \<open>catch\<close>.
\<close>

definition n8n_registrations ::
  "(string \<times> (tool_params \<Rightarrow> n8n_env \<Rightarrow> n8n_world \<Rightarrow> n8n_state
      \<Rightarrow> (thrown + json) \<times> n8n_state)) list" where
  "n8n_registrations =
     [(''mcp_list_workflows'', \<lambda>args. listWorkflows),
      (''mcp_get_workflow'', \<lambda>args. getWorkflow \<lparr>tp_id = tp_id args, tp_data = None\<rparr>),
      (''mcp_activate_workflow'',
         \<lambda>args. activateWorkflow \<lparr>tp_id = tp_id args, tp_data = None\<rparr>),
      (''mcp_deactivate_workflow'',
         \<lambda>args. deactivateWorkflow \<lparr>tp_id = tp_id args, tp_data = None\<rparr>),
      (''mcp_execute_workflow'',
         \<lambda>args. executeWorkflow \<lparr>tp_id = tp_id args, tp_data = tp_data args\<rparr>),
      (''mcp_list_workflow_executions'',
         \<lambda>args. listWorkflowExecutions \<lparr>tp_id = tp_id args, tp_data = None\<rparr>),
      (''mcp_get_execution'', \<lambda>args. getExecution \<lparr>tp_id = tp_id args, tp_data = None\<rparr>)]"



section \<open>Gemini image server: configuration, start-up and handlers\<close>

record gemini_env =
  GEMINI_API_KEY :: "string option"

definition API_KEY_ENV_VAR :: string where
  "API_KEY_ENV_VAR = ''GEMINI_API_KEY''"







text \<open>
  \<open>ENABLE_DEBUG_LOGGING\<close> is the constant \<open>false\<close> in \<open>config.ts\<close>; the statements it
  guards never run and are left out below.
\<close>

definition key_missing :: "gemini_env \<Rightarrow> bool" where
  "key_missing e = (case GEMINI_API_KEY e of None \<Rightarrow> True | Some k \<Rightarrow> k = [] \<or> trim k = [])"

definition validateEnvironment :: "gemini_env \<Rightarrow> thrown + unit" where
  "validateEnvironment e =
     (if key_missing e
      then Inl (Error (''Missing required environment variable: '' @ API_KEY_ENV_VAR @
                        ''. Please set your Google Gemini API key in the environment.''))
      else Inr ())"


text \<open>\<open>error instanceof Error ? error.message : String(error)\<close>\<close>

fun error_text :: "thrown \<Rightarrow> string" where
  "error_text (OtherValue v) = js_String v"
| "error_text t = String_opt (thrown_message t)"

definition gemini_main :: "gemini_env \<Rightarrow> thrown option \<Rightarrow> process" where
  "gemini_main e transport =
     (case validateEnvironment e of
        Inl error \<Rightarrow>
          process_exit 1
            (console_error [LStr ''Please ensure GEMINI_API_KEY environment variable is set'']
               (console_error [LStr ''Environment validation failed:'', LStr (error_text error)]
                  started))
      | Inr _ \<Rightarrow>
          (let p1 = console_log [LStr ''Environment validation successful''] started;
               p2 = console_log [LStr ''Starting Gemini Image MCP server...''] p1;
               p3 = console_log [LStr ''Server name: gemini-image-mcp''] p2;
               p4 = console_log [LStr ''Version: 0.1.0''] p3
           in case transport of
                None \<Rightarrow>
                  console_log [LStr ''Waiting for requests...'']
                    (console_log [LStr ''Gemini Image MCP server ready'']
                       (p4\<lparr>pr_serving := True\<rparr>))
              | Some error \<Rightarrow>
                  process_exit 1
                    (console_error
                       [LStr ''Stack:'',
                        (case error of OtherValue v \<Rightarrow> LStr ''No stack trace available''
                                     | _ \<Rightarrow> LStack error)]
                       (console_error [LStr ''Failed to start server:'', LThrown error] p4))))"




section \<open>Gemini image server: the tool function (\<open>tools/imageGeneration.ts\<close>)\<close>











record GeneratedFile =
  gf_path :: string
  gf_fileName :: string
  gf_mimeType :: string
  gf_size :: nat
  gf_extension :: string






section \<open>Concrete configurations and runs\<close>

text \<open>A database world in which every library call succeeds and queries return no rows.\<close>

definition all_ok :: pg_world where
  "all_ok = (\<lambda>history call. Inr [])"

definition two_connections :: pg_env where
  "two_connections =
     \<lparr>PG_DB_MAP = Some (Text (JObj [(''conn-a'', JStr ''postgresql://u@h/a''),
                                     (''conn-b'', JStr ''postgresql://u@h/b'')])),
      PG_CONNECTION_STRING = None\<rparr>"

definition scenario1 :: pg_state where
  "scenario1 = snd (connect ''conn-a'' no_options all_ok (fresh_state two_connections))"

definition scenario2 :: pg_state where
  "scenario2 = snd (connect ''conn-b'' no_options all_ok scenario1)"

definition scenario3 :: pg_state where
  "scenario3 = snd (connect ''conn-a'' no_options all_ok scenario2)"

text \<open>One named connection, \<open>main\<close>, which is also the default.\<close>

definition main_is_default :: pg_env where
  "main_is_default =
     \<lparr>PG_DB_MAP = Some (Text (JObj [(''main'', JStr ''postgresql://u@h/main''),
                                     (''default'', JStr ''main'')])),
      PG_CONNECTION_STRING = None\<rparr>"

text \<open>An n8n process that has not logged, sent or run anything yet.\<close>

definition n8n_idle :: n8n_state where
  "n8n_idle = \<lparr>n_console = [], n_requests = [], n_tools = []\<rparr>"

definition n8n_unconfigured :: n8n_env where
  "n8n_unconfigured = \<lparr>N8N_BASE_URL = None, N8N_API_KEY = None\<rparr>"

definition n8n_configured :: n8n_env where
  "n8n_configured = \<lparr>N8N_BASE_URL = Some ''http://n8n.local'', N8N_API_KEY = Some ''n8n_api_secret''\<rparr>"

text \<open>
  An n8n instance that answers every request with status 500 and an empty body. The
  rejection is the error \<open>axios\<close> builds for such a response: its message, the response,
  and the configuration of the request, headers included.
\<close>

definition n8n_down :: n8n_world where
  "n8n_down = (\<lambda>cfg rq. Inl (AxiosError
       \<lparr>ax_message = ''Request failed with status code 500'',
        ax_response = Some \<lparr>resp_status = 500, resp_data = JObj []\<rparr>,
        ax_config = cfg\<rparr>))"

text \<open>An n8n instance that answers every request with an empty object.\<close>

definition n8n_up :: n8n_world where
  "n8n_up = (\<lambda>cfg rq. Inr (JObj []))"

definition unknown_tool_request :: tool_request where
  "unknown_tool_request =
     \<lparr>tr_name = ''mcp_delete_workflow'', tr_parameters = \<lparr>tp_id = ''42'', tp_data = None\<rparr>\<rparr>"



definition gemini_unconfigured :: gemini_env where
  "gemini_unconfigured = \<lparr>GEMINI_API_KEY = None\<rparr>"






section \<open>The read-only guard of the query tool\<close>

lemma dropWhile_append_keep:
  "\<not> P y \<Longrightarrow> dropWhile P (xs @ y # ys) = dropWhile P xs @ y # ys"
  by (induction xs) auto

lemma trimEnd_keep:
  "\<not> js_whitespace c \<Longrightarrow> trimEnd (a @ c # b) = a @ c # trimEnd b"
  by (simp add: trimEnd_def dropWhile_append_keep)

lemma lower_char_t: "lower_char c = CHR ''t'' \<Longrightarrow> \<not> js_whitespace c"
  by (auto simp: lower_char_def js_whitespace_def Let_def split: if_splits)

lemma trimEnd_prefix: "prefix (trimEnd t) t"
proof -
  have "rev (takeWhile js_whitespace (rev t) @ dropWhile js_whitespace (rev t)) = rev (rev t)"
    by (simp only: takeWhile_dropWhile_id)
  then have "rev (dropWhile js_whitespace (rev t)) @ rev (takeWhile js_whitespace (rev t)) = t"
    by (simp only: rev_append rev_rev_ident)
  then have "t = trimEnd t @ rev (takeWhile js_whitespace (rev t))"
    unfolding trimEnd_def by (rule sym)
  then show ?thesis by (rule prefixI)
qed

lemma butlast_snoc_append: "a \<noteq> [] \<Longrightarrow> butlast a @ last a # b = a @ b"
proof -
  assume "a \<noteq> []"
  then have "(butlast a @ [last a]) @ b = a @ b" by simp
  then show ?thesis by simp
qed

text \<open>
  Trimming the end as well, as \<open>trim\<close> does, cannot change whether the lower-cased text
  begins with \<open>select\<close>: the sixth character is no white space.
\<close>

lemma select_prefix_trimEnd:
  "prefix ''select'' (toLowerCase (trimEnd t)) \<longleftrightarrow> prefix ''select'' (toLowerCase t)"
proof
  assume "prefix ''select'' (toLowerCase (trimEnd t))"
  moreover have "prefix (toLowerCase (trimEnd t)) (toLowerCase t)"
    unfolding toLowerCase_def using trimEnd_prefix by (rule map_mono_prefix)
  ultimately show "prefix ''select'' (toLowerCase t)" by (rule prefix_order.trans)
next
  assume "prefix ''select'' (toLowerCase t)"
  then obtain r where "map lower_char t = ''select'' @ r"
    unfolding toLowerCase_def by (rule prefixE)
  then have "\<exists>a b. t = a @ b \<and> ''select'' = map lower_char a \<and> r = map lower_char b"
    by (simp only: map_eq_append_conv)
  then obtain a b where t: "t = a @ b" and a: "''select'' = map lower_char a"
    by (elim exE conjE)
  from a have ne: "a \<noteq> []" by auto
  have "lower_char (last a) = last (map lower_char a)" using ne by (simp add: last_map)
  also have "\<dots> = CHR ''t''" unfolding a [symmetric] by simp
  finally have "\<not> js_whitespace (last a)" by (rule lower_char_t)
  then have keep: "trimEnd (butlast a @ last a # b) = butlast a @ last a # trimEnd b"
    by (rule trimEnd_keep)
  have e1: "butlast a @ last a # b = a @ b" using ne by (rule butlast_snoc_append)
  have e2: "butlast a @ last a # trimEnd b = a @ trimEnd b" using ne by (rule butlast_snoc_append)
  have "trimEnd t = a @ trimEnd b"
    using keep unfolding t e1 e2 .
  then have "toLowerCase (trimEnd t) = ''select'' @ toLowerCase (trimEnd b)"
    unfolding a by (simp add: toLowerCase_def)
  then show "prefix ''select'' (toLowerCase (trimEnd t))" by (rule prefixI)
qed

lemma guard_leading_only:
  "startsWith (toLowerCase (trim q)) ''select'' \<longleftrightarrow>
   startsWith (toLowerCase (trimStart q)) ''select''"
  by (simp add: startsWith_def trim_def select_prefix_trimEnd)

lemma release_client_log [simp]: "adapter_log (release_client s) = adapter_log s"
  by (simp add: release_client_def split: option.splits)

lemma pg_await_log [simp]: "adapter_log (snd (pg_await w c s)) = adapter_log s"
  by (simp add: pg_await_def)

lemma disconnect_log [simp]: "adapter_log (disconnect s) = adapter_log s @ [CallDisconnect]"
  by (simp add: disconnect_def entered_def)

lemma query_log [simp]:
  "adapter_log (snd (query t v tm w s)) = adapter_log s @ [CallQuery t v]"
  by (simp add: query_def Let_def entered_def pg_await_def
           split: option.splits prod.splits sum.splits)

lemma use_pool_log [simp]: "adapter_log (snd (use_pool a opts s)) = adapter_log s"
  by (simp add: use_pool_def Let_def split: option.splits)

lemma test_connection_log [simp]:
  "adapter_log (snd (test_connection p opts w s)) = adapter_log s"
  by (simp add: test_connection_def pg_await_def Let_def split: prod.splits sum.splits)

lemma connect_catch_log [simp]: "adapter_log (snd (connect_catch e w s)) = adapter_log s"
  by (simp add: connect_catch_def pg_await_def Let_def split: option.splits prod.splits sum.splits)

lemma connect_try_log:
  "\<exists>rest. adapter_log (snd (connect_try n opts w s)) = adapter_log s @ rest"
  by (simp add: connect_try_def Let_def split_beta)

lemma connect_log:
  "\<exists>rest. adapter_log (snd (connect n opts w s)) = adapter_log s @ CallConnect n opts # rest"
proof -
  let ?s0 = "entered (CallConnect n opts) s"
  obtain rest where r: "adapter_log (snd (connect_try n opts w ?s0)) = adapter_log ?s0 @ rest"
    using connect_try_log by blast
  have s0: "adapter_log ?s0 = adapter_log s @ [CallConnect n opts]" by (simp add: entered_def)
  obtain res s' where c: "connect_try n opts w ?s0 = (res, s')" by (cases "connect_try n opts w ?s0")
  then have s': "adapter_log s' = adapter_log s @ CallConnect n opts # rest" using r s0 by simp
  have "adapter_log (snd (connect n opts w s)) = adapter_log s'"
    using c by (cases res) (simp_all add: connect_def)
  then show ?thesis using s' by simp
qed

lemma executeQuery_log:
  assumes "startsWith (toLowerCase (trim q)) ''select''"
  shows "\<exists>rest. adapter_log (snd (executeQuery connStr q params w s)) =
           adapter_log s @
           CallConnect connStr (no_options\<lparr>ssl := Some (SslRejectUnauthorized False)\<rparr>) # rest"
proof -
  let ?opts = "no_options\<lparr>ssl := Some (SslRejectUnauthorized False)\<rparr>"
  obtain rest where r:
    "adapter_log (snd (connect connStr ?opts w s)) = adapter_log s @ CallConnect connStr ?opts # rest"
    using connect_log by blast
  show ?thesis
  proof (cases "connect connStr ?opts w s")
    case (Pair res s')
    then have s': "adapter_log s' = adapter_log s @ CallConnect connStr ?opts # rest"
      using r by simp
    show ?thesis
    proof (cases res)
      case (Inl e)
      then show ?thesis using assms Pair s' by (simp add: executeQuery_def)
    next
      case (Inr u)
      have "adapter_log (snd (query q params None w s')) = adapter_log s' @ [CallQuery q params]"
        by simp
      then show ?thesis using assms Pair Inr s'
        by (simp add: executeQuery_def split_beta)
    qed
  qed
qed

text \<open>
  C1. The query tool \<open>executeQuery\<close> rejects every query that does not begin with
  \<open>select\<close> (any letter case, after the leading white space is dropped): it returns the
  failure result and leaves the whole adapter state as it was, so neither \<open>connect\<close> nor
  \<open>query\<close> is entered and no library call is made. A query that does begin with
  \<open>select\<close> proceeds to the adapter: the next adapter method entered is \<open>connect\<close> with
  the connection string given.
\<close>

theorem executeQuery_select_guard:
  "(\<not> startsWith (toLowerCase (trimStart q)) ''select'' \<longrightarrow>
      executeQuery connStr q params w s =
        (Inr \<lparr>qr_success = False,
               qr_message = ''Only SELECT queries are allowed for security reasons'',
               qr_details = None\<rparr>, s))
   \<and> (startsWith (toLowerCase (trimStart q)) ''select'' \<longrightarrow>
        (\<exists>rest. adapter_log (snd (executeQuery connStr q params w s)) =
           adapter_log s @
           CallConnect connStr (no_options\<lparr>ssl := Some (SslRejectUnauthorized False)\<rparr>) # rest))"
proof (intro conjI impI)
  assume "\<not> startsWith (toLowerCase (trimStart q)) ''select''"
  then have "\<not> startsWith (toLowerCase (trim q)) ''select''"
    by (simp add: guard_leading_only)
  then show "executeQuery connStr q params w s =
        (Inr \<lparr>qr_success = False,
               qr_message = ''Only SELECT queries are allowed for security reasons'',
               qr_details = None\<rparr>, s)"
    by (simp add: executeQuery_def)
next
  assume "startsWith (toLowerCase (trimStart q)) ''select''"
  then have "startsWith (toLowerCase (trim q)) ''select''"
    by (simp add: guard_leading_only)
  then show "\<exists>rest. adapter_log (snd (executeQuery connStr q params w s)) =
           adapter_log s @
           CallConnect connStr (no_options\<lparr>ssl := Some (SslRejectUnauthorized False)\<rparr>) # rest"
    by (rule executeQuery_log)
qed

theorem executeQuery_select_guard_witness:
  "\<not> startsWith (toLowerCase (trimStart ''DROP TABLE x'')) ''select''
   \<and> executeQuery ''conn-a'' ''DROP TABLE x'' [] all_ok (fresh_state two_connections) =
        (Inr \<lparr>qr_success = False,
               qr_message = ''Only SELECT queries are allowed for security reasons'',
               qr_details = None\<rparr>, fresh_state two_connections)
   \<and> startsWith (toLowerCase (trimStart ''  SELECT 1'')) ''select''
   \<and> (\<exists>rest. adapter_log (snd (executeQuery ''conn-a'' ''  SELECT 1'' [] all_ok
                                   (fresh_state two_connections))) =
          adapter_log (fresh_state two_connections) @
          CallConnect ''conn-a'' (no_options\<lparr>ssl := Some (SslRejectUnauthorized False)\<rparr>) # rest)"
proof -
  have a: "\<not> startsWith (toLowerCase (trimStart ''DROP TABLE x'')) ''select''"
    by code_simp
  have b: "startsWith (toLowerCase (trimStart ''  SELECT 1'')) ''select''"
    by code_simp
  note rejected = executeQuery_select_guard [of "''DROP TABLE x''" "''conn-a''" "[]" all_ok
      "fresh_state two_connections", THEN conjunct1, rule_format, OF a]
  note accepted = executeQuery_select_guard [of "''  SELECT 1''" "''conn-a''" "[]" all_ok
      "fresh_state two_connections", THEN conjunct2, rule_format, OF b]
  show ?thesis
    using a b rejected accepted by (intro conjI) assumption+
qed

section \<open>Pool reuse across connections\<close>

lemma getConnectionString_cache:
  "configCache p = Some c \<Longrightarrow> configCache (snd (getConnectionString n p)) = Some c"
  by (simp add: getConnectionString_def Let_def split: option.splits)

lemma getConnectionString_reads_cache:
  "configCache p = Some c \<Longrightarrow> configCache p' = Some c \<Longrightarrow>
     fst (getConnectionString n p) = fst (getConnectionString n p')"
  by (simp add: getConnectionString_def Let_def split: option.splits)

lemma entered_fields [simp]:
  "config_module (entered c s) = config_module s" "pool (entered c s) = pool s"
  "client (entered c s) = client s" "connectionString (entered c s) = connectionString s"
  "poolCache (entered c s) = poolCache s" "pools (entered c s) = pools s"
  "calls (entered c s) = calls s"
  by (simp_all add: entered_def)

lemma connect_catch_throws: "fst (connect_catch e w s) \<noteq> Inr u"
  by (simp add: connect_catch_def Let_def pg_await_def split: option.splits prod.splits sum.splits)

lemma connect_success_iff:
  "connect n opts w s = (Inr (), s') \<longleftrightarrow>
     connect_try n opts w (entered (CallConnect n opts) s) = (Inr (), s')"
proof (cases "connect_try n opts w (entered (CallConnect n opts) s)")
  case (Pair res t)
  show ?thesis
  proof (cases res)
    case (Inl e)
    have "connect n opts w s = connect_catch e w t" using Pair Inl by (simp add: connect_def)
    then have "fst (connect n opts w s) \<noteq> Inr ()" by (simp add: connect_catch_throws)
    then show ?thesis using Pair Inl by auto
  next
    case (Inr u)
    then show ?thesis using Pair by (simp add: connect_def)
  qed
qed

text \<open>What a successful run of the \<open>try\<close> block leaves behind.\<close>

lemma connect_try_success:
  assumes "connect_try n opts w s = (Inr (), s')"
  shows "truthy (fst (getConnectionString n (config_module s)))"
    and "config_module s' = snd (getConnectionString n (config_module s))"
    and "pool s \<noteq> None \<and> connectionString s = fst (getConnectionString n (config_module s))
           \<Longrightarrow> s' = s\<lparr>config_module := snd (getConnectionString n (config_module s))\<rparr>"
    and "\<not> (pool s \<noteq> None \<and> connectionString s = fst (getConnectionString n (config_module s)))
           \<Longrightarrow> connectionString s' = fst (getConnectionString n (config_module s))
             \<and> client s' = pool s'
             \<and> (case poolCache s (fst (getConnectionString n (config_module s))) of
                   Some p \<Rightarrow> pool s' = Some p \<and> poolCache s' = poolCache s \<and> pools s' = pools s
                 | None \<Rightarrow> pool s' = Some (length (pools s))
                     \<and> poolCache s' =
                         (poolCache s)(fst (getConnectionString n (config_module s)) \<mapsto> length (pools s))
                     \<and> pools s' = pools s @
                         [pool_config (fst (getConnectionString n (config_module s))) opts])"
    and "PoolEnd q \<in> set (calls s') \<Longrightarrow> PoolEnd q \<in> set (calls s)"
    and "\<not> (pool s \<noteq> None \<and> connectionString s = fst (getConnectionString n (config_module s)))
           \<Longrightarrow> pool s \<noteq> None \<Longrightarrow> client s = Some c
           \<Longrightarrow> \<exists>rest. calls s' = calls s @ ClientRelease c # rest"
  using assms
  by (auto simp: connect_try_def use_pool_def test_connection_def Let_def pg_await_def
                 disconnect_def release_client_def entered_def
           split: prod.splits sum.splits option.splits if_splits)

text \<open>
  C2. From a fresh adapter, when \<open>connect a\<close>, \<open>connect b\<close> and \<open>connect a\<close> all
  succeed, the first call creates a pool (pool 0, the only one so far), and the third call
  holds that same pool object again and creates no pool. The second call leaves the cache
  entry of the first connection string pointing at pool 0, no pool is ever ended, and when
  the second connection string differs from the first the client leased from pool 0 is
  released and a second pool is taken into use.
\<close>

theorem connect_reuses_pool:
  assumes c1: "connect a o1 w (fresh_state e) = (Inr (), s1)"
      and c2: "connect b o2 w s1 = (Inr (), s2)"
      and c3: "connect a o3 w s2 = (Inr (), s3)"
  shows "pool s1 = Some 0 \<and> pools s1 = [pool_config (connectionString s1) o1]
       \<and> pool s3 = Some 0 \<and> pools s3 = pools s2
       \<and> poolCache s2 (connectionString s1) = Some 0
       \<and> (\<forall>q. PoolEnd q \<notin> set (calls s3))
       \<and> (connectionString s2 \<noteq> connectionString s1 \<longrightarrow>
            pool s2 = Some 1 \<and> (\<exists>rest. calls s2 = calls s1 @ ClientRelease 0 # rest))"
proof -
  let ?f1 = "entered (CallConnect b o2) s1"
  let ?f2 = "entered (CallConnect a o3) s2"
  let ?sa = "fst (getConnectionString a (module_init e))"
  let ?sb = "fst (getConnectionString b (config_module s1))"
  note t1 = connect_try_success [OF c1 [unfolded connect_success_iff]]
  note t2 = connect_try_success [OF c2 [unfolded connect_success_iff]]
  note t3 = connect_try_success [OF c3 [unfolded connect_success_iff]]
  have init: "config_module (fresh_state e) = module_init e" "pool (fresh_state e) = None"
    "poolCache (fresh_state e) = Map.empty" "pools (fresh_state e) = []"
    "calls (fresh_state e) = []"
    by (simp_all add: fresh_state_def)
  have cache0: "configCache (module_init e) = Some (loadConfig e)" by (simp add: module_init_def)
  have s1: "connectionString s1 = ?sa" "client s1 = Some 0" "pool s1 = Some 0"
    "poolCache s1 = [?sa \<mapsto> 0]" "pools s1 = [pool_config ?sa o1]"
    using t1(4) by (simp_all add: init)
  have cache1: "configCache (config_module s1) = Some (loadConfig e)"
    using t1(2) cache0 by (simp add: init getConnectionString_cache)
  have cache2: "configCache (config_module s2) = Some (loadConfig e)"
    using t2(2) cache1 by (simp add: getConnectionString_cache)
  have a2: "fst (getConnectionString a (config_module s2)) = ?sa"
    using cache2 cache0 by (rule getConnectionString_reads_cache)
  have noend1: "\<And>q. PoolEnd q \<notin> set (calls s1)" using t1(5) by (auto simp: init)
  have noend3: "\<And>q. PoolEnd q \<notin> set (calls s3)" using t3(5) t2(5) noend1 by auto
  show ?thesis
  proof (cases "?sb = ?sa")
    case True
    then have s2: "s2 = ?f1\<lparr>config_module := snd (getConnectionString b (config_module s1))\<rparr>"
      using t2(3) s1 by simp
    then have "pool s2 = Some 0" "connectionString s2 = ?sa" "pools s2 = pools s1"
      "poolCache s2 = poolCache s1"
      using s1 by simp_all
    moreover from this
    have "s3 = ?f2\<lparr>config_module := snd (getConnectionString a (config_module s2))\<rparr>"
      using t3(3) a2 by simp
    ultimately show ?thesis using s1 noend3 by simp
  next
    case False
    then have sw: "\<not> (pool ?f1 \<noteq> None \<and>
        connectionString ?f1 = fst (getConnectionString b (config_module ?f1)))"
      using s1 by simp
    have b2: "connectionString s2 = ?sb" "pool s2 = Some 1"
      "poolCache s2 = (poolCache s1)(?sb \<mapsto> 1)" "pools s2 = pools s1 @ [pool_config ?sb o2]"
      using t2(4) [OF sw] False s1 by simp_all
    have rel: "\<exists>rest. calls s2 = calls s1 @ ClientRelease 0 # rest"
      using t2(6) [OF sw, of 0] s1 by simp
    have sw3: "\<not> (pool ?f2 \<noteq> None \<and>
        connectionString ?f2 = fst (getConnectionString a (config_module ?f2)))"
      using b2 a2 False by simp
    have "pool s3 = Some 0 \<and> pools s3 = pools s2"
      using t3(4) [OF sw3] a2 b2 s1 False by simp
    then show ?thesis using s1 b2 rel noend3 False by simp
  qed
qed

lemmas run_connect = connect_def connect_try_def connect_catch_def use_pool_def
  test_connection_def getConnectionString_def Let_def pg_await_def disconnect_def
  release_client_def entered_def startsWith_def toLowerCase_def lower_char_def js_get_def
  or_null_def all_ok_def truthy_num_def pool_config_def or_default_def no_options_def
  fresh_state_def module_init_def Object_prototype_names_def

lemma loadConfig_two_connections:
  "loadConfig two_connections =
     \<lparr>connections = [(''conn-a'', ''postgresql://u@h/a''), (''conn-b'', ''postgresql://u@h/b'')],
      default_name = None\<rparr>"
  by (simp add: loadConfig_def two_connections_def parse_db_map_def Let_def js_set_def
        toLowerCase_def lower_char_def)

theorem connect_reuses_pool_witness:
  "connect ''conn-a'' no_options all_ok (fresh_state two_connections) = (Inr (), scenario1)
   \<and> connect ''conn-b'' no_options all_ok scenario1 = (Inr (), scenario2)
   \<and> connect ''conn-a'' no_options all_ok scenario2 = (Inr (), scenario3)
   \<and> pool scenario1 = Some 0 \<and> pool scenario2 = Some 1 \<and> pool scenario3 = Some 0
   \<and> pools scenario3 = pools scenario2"
proof -
  have f1: "fst (connect ''conn-a'' no_options all_ok (fresh_state two_connections)) = Inr ()"
    by (simp add: run_connect loadConfig_two_connections)
  have f2: "fst (connect ''conn-b'' no_options all_ok scenario1) = Inr ()"
    by (simp add: scenario1_def run_connect loadConfig_two_connections)
  have f3: "fst (connect ''conn-a'' no_options all_ok scenario2) = Inr ()"
    by (simp add: scenario2_def scenario1_def run_connect loadConfig_two_connections)
  have d: "connectionString scenario2 \<noteq> connectionString scenario1"
    by (simp add: scenario2_def scenario1_def run_connect loadConfig_two_connections)
  have h1: "connect ''conn-a'' no_options all_ok (fresh_state two_connections) = (Inr (), scenario1)"
    using f1 by (simp add: scenario1_def prod_eq_iff)
  have h2: "connect ''conn-b'' no_options all_ok scenario1 = (Inr (), scenario2)"
    using f2 by (simp add: scenario2_def prod_eq_iff)
  have h3: "connect ''conn-a'' no_options all_ok scenario2 = (Inr (), scenario3)"
    using f3 by (simp add: scenario3_def prod_eq_iff)
  show ?thesis using connect_reuses_pool [OF h1 h2 h3] h1 h2 h3 d by simp
qed

section \<open>Resolution of connection names\<close>

lemma getConnectionString_raw:
  assumes "startsWith s ''postgresql://''"
  shows "getConnectionString s p = (Str s, p)"
proof -
  from assms have "s \<noteq> []" by (auto simp: startsWith_def)
  with assms show ?thesis by (simp add: getConnectionString_def)
qed

text \<open>
  C10. A string that begins with \<open>postgresql://\<close> is returned by \<open>getConnectionString\<close>
  as it is, and the module state, with its configuration cache, is neither read nor
  changed. The adapter therefore takes such a string whatever the configured names are:
  for every environment, \<open>connect\<close> on a fresh adapter with a cooperating database
  succeeds, and the one pool it creates is configured with exactly that string.
\<close>

theorem raw_connection_string_passthrough:
  assumes "startsWith s ''postgresql://''"
  shows "getConnectionString s p = (Str s, p)
       \<and> fst (connect s opts all_ok (fresh_state e)) = Inr ()
       \<and> pools (snd (connect s opts all_ok (fresh_state e))) = [pool_config (Str s) opts]
       \<and> connectionString (snd (connect s opts all_ok (fresh_state e))) = Str s"
proof -
  from assms have ne: "s \<noteq> []" by (auto simp: startsWith_def)
  have g: "\<And>q. getConnectionString s q = (Str s, q)" using assms by (rule getConnectionString_raw)
  have "fst (connect s opts all_ok (fresh_state e)) = Inr ()
      \<and> pools (snd (connect s opts all_ok (fresh_state e))) = [pool_config (Str s) opts]
      \<and> connectionString (snd (connect s opts all_ok (fresh_state e))) = Str s"
    using ne
    by (simp add: connect_def connect_try_def use_pool_def test_connection_def g Let_def
          pg_await_def entered_def all_ok_def fresh_state_def)
  then show ?thesis using g by simp
qed

theorem raw_connection_string_passthrough_witness:
  "startsWith ''postgresql://u@h/other'' ''postgresql://''
   \<and> getConnectionString ''postgresql://u@h/other'' (module_init two_connections) =
       (Str ''postgresql://u@h/other'', module_init two_connections)
   \<and> fst (connect ''postgresql://u@h/other'' no_options all_ok (fresh_state two_connections)) = Inr ()"
proof -
  have h: "startsWith ''postgresql://u@h/other'' ''postgresql://''"
    by (simp add: startsWith_def)
  show ?thesis
    using h raw_connection_string_passthrough [OF h, of "module_init two_connections" no_options
        two_connections]
    by simp
qed

section \<open>The configuration cache is never refreshed\<close>

lemma addDatabaseConnection_cache [simp]:
  "configCache (snd (addDatabaseConnection n c p)) = configCache p"
  by (simp add: addDatabaseConnection_def saveConfig_def Let_def split: option.splits)

lemma pg_step_cache:
  "configCache p = Some c \<Longrightarrow> configCache (pg_step x p) = Some c"
  by (cases x) (simp_all add: getConnectionString_cache)

lemma pg_run_cache:
  "configCache p = Some c \<Longrightarrow> configCache (pg_run ops p) = Some c"
  unfolding pg_run_def
  by (induction ops arbitrary: p) (simp_all add: pg_step_cache)

lemma js_get_absent:
  "k \<notin> fst ` set obj \<Longrightarrow> k \<notin> set Object_prototype_names \<Longrightarrow> js_get obj k = Undefined"
  by (simp add: js_get_def map_of_eq_None_iff split: option.splits)

lemma map_of_replace:
  "k \<in> fst ` set obj \<Longrightarrow>
     map_of (map (\<lambda>(k', v'). if k' = k then (k', v) else (k', v')) obj) k = Some v"
  by (induction obj) auto

lemma map_of_append_new:
  "k \<notin> fst ` set obj \<Longrightarrow> map_of (obj @ [(k, v)]) k = Some v"
proof -
  assume "k \<notin> fst ` set obj"
  then have "map_of obj k = None" by (simp add: map_of_eq_None_iff)
  then show ?thesis by (simp add: map_add_def)
qed

lemma map_of_js_set:
  assumes "n \<noteq> ''__proto__''"
  shows "map_of (js_set obj n v) n = Some v"
proof (cases "n \<in> fst ` set obj")
  case True
  then show ?thesis using assms unfolding js_set_def by (simp only: if_False if_True map_of_replace)
next
  case False
  then show ?thesis using assms unfolding js_set_def
    by (simp add: map_of_append_new del: map_of_append)
qed

lemma js_get_js_set:
  "n \<noteq> ''__proto__'' \<Longrightarrow> js_get (js_set obj n v) n = Str v"
  by (simp add: js_get_def map_of_js_set)

lemma addDatabaseConnection_writes:
  assumes "n \<noteq> ''__proto__''"
  shows "\<exists>c. PG_DB_MAP (env (snd (addDatabaseConnection n cs p))) = Some (Text (stringify_config c))
            \<and> js_get (connections c) n = Str cs"
  using assms
  by (auto simp: addDatabaseConnection_def saveConfig_def Let_def js_get_js_set
           split: option.splits)

lemma addDatabaseConnection_succeeds: "cr_success (fst (addDatabaseConnection n cs p))"
  by (simp add: addDatabaseConnection_def saveConfig_def Let_def split: option.splits)

text \<open>
  C9 (as amended). \<open>getConnectionString\<close> reads the configuration cache filled when the
  module is loaded, and nothing refreshes it. Take a name that does not begin with
  \<open>postgresql://\<close>, whose lower-cased form is no key of the configuration loaded at
  start-up and no member name of \<open>Object.prototype\<close>, and that is not the empty name
  while a default connection is configured. Then \<open>getConnectionString\<close> returns
  \<open>null\<close> for it after any sequence of tool calls and lookups, also when one of the tool
  calls is a successful \<open>addDatabaseConnection\<close> of that very name, which does write the
  name and its connection string into \<open>PG_DB_MAP\<close>.
\<close>

theorem getConnectionString_stale_cache:
  assumes "\<not> startsWith n ''postgresql://''"
    and "n \<noteq> [] \<or> default_name (loadConfig e) = None"
    and "toLowerCase n \<notin> fst ` set (connections (loadConfig e))"
    and "toLowerCase n \<notin> set Object_prototype_names"
  shows "fst (getConnectionString n
                (pg_run (before @ AddConnection n cs # after) (module_init e))) = Null
       \<and> cr_success (fst (addDatabaseConnection n cs (pg_run before (module_init e))))
       \<and> (\<exists>c. PG_DB_MAP (env (snd (addDatabaseConnection n cs (pg_run before (module_init e)))))
                 = Some (Text (stringify_config c))
              \<and> js_get (connections c) n = Str cs)"
proof -
  let ?p = "pg_run (before @ AddConnection n cs # after) (module_init e)"
  have c0: "configCache (module_init e) = Some (loadConfig e)" by (simp add: module_init_def)
  then have "configCache ?p = Some (loadConfig e)" by (rule pg_run_cache)
  then have "fst (getConnectionString n ?p) = fst (getConnectionString n (module_init e))"
    using c0 by (rule getConnectionString_reads_cache)
  moreover have "fst (getConnectionString n (module_init e)) = Null"
    using assms
    by (auto simp: getConnectionString_def module_init_def Let_def js_get_absent or_null_def
             split: option.splits)
  moreover have "n \<noteq> ''__proto__''"
    using assms(4) by (auto simp: Object_prototype_names_def toLowerCase_def lower_char_def Let_def)
  ultimately show ?thesis
    using addDatabaseConnection_succeeds addDatabaseConnection_writes by simp
qed

lemma loadConfig_main_is_default:
  "loadConfig main_is_default =
     \<lparr>connections = [(''main'', ''postgresql://u@h/main'')], default_name = Some ''main''\<rparr>"
  by (simp add: loadConfig_def main_is_default_def parse_db_map_def Let_def js_set_def js_get_def
        toLowerCase_def lower_char_def)

theorem getConnectionString_stale_cache_witness:
  "\<not> startsWith ''reports'' ''postgresql://''
   \<and> toLowerCase ''reports'' \<notin> fst ` set (connections (loadConfig main_is_default))
   \<and> toLowerCase ''reports'' \<notin> set Object_prototype_names
   \<and> fst (getConnectionString ''reports''
            (pg_run [AddConnection ''reports'' ''postgresql://u@h/reports'', Lookup ''main'']
               (module_init main_is_default))) = Null
   \<and> cr_success (fst (addDatabaseConnection ''reports'' ''postgresql://u@h/reports''
                         (module_init main_is_default)))"
proof -
  have h1: "\<not> startsWith ''reports'' ''postgresql://''" by (simp add: startsWith_def)
  have h2: "''reports'' \<noteq> [] \<or> default_name (loadConfig main_is_default) = None" by simp
  have h3: "toLowerCase ''reports'' \<notin> fst ` set (connections (loadConfig main_is_default))"
    by (simp add: loadConfig_main_is_default toLowerCase_def lower_char_def)
  have h4: "toLowerCase ''reports'' \<notin> set Object_prototype_names"
    by (simp add: Object_prototype_names_def toLowerCase_def lower_char_def)
  show ?thesis
    using h1 h3 h4
      getConnectionString_stale_cache [OF h1 h2 h3 h4, of "[]" "''postgresql://u@h/reports''"
        "[Lookup ''main'']"]
    by (simp add: pg_run_def)
qed

text \<open>
  The claim as first stated fails for the empty name: it is no key of the configuration,
  yet with a default configured \<open>getConnectionString\<close> resolves it to the default
  connection, before and after any \<open>addDatabaseConnection\<close>.
\<close>

theorem getConnectionString_empty_name_counterexample:
  "\<not> startsWith [] ''postgresql://''
   \<and> toLowerCase [] \<notin> fst ` set (connections (loadConfig main_is_default))
   \<and> fst (getConnectionString []
            (snd (addDatabaseConnection [] ''postgresql://u@h/new'' (module_init main_is_default))))
       = Str ''postgresql://u@h/main''"
  by (simp add: startsWith_def toLowerCase_def loadConfig_main_is_default js_get_def
        getConnectionString_def module_init_def addDatabaseConnection_def
        saveConfig_def Let_def or_null_def)

section \<open>n8n: translation of remote failures\<close>

lemma json_message_falsy: "\<not> json_truthy d \<Longrightarrow> json_message d = None"
  by (cases d) simp_all

lemma handleApiError_with_response:
  assumes "ax_response e = Some r" and "resp_status r \<noteq> 0"
  shows "fst (handleApiError (AxiosError e) ctx s) =
     (if resp_status r = 401 \<or> resp_status r = 403
      then N8nClientError ''Authentication failed. Please check your API key.''
             (Some (resp_status r))
      else if resp_status r = 404
      then N8nClientError ''Resource not found. Please check the ID.'' (Some 404)
      else N8nClientError
             (ctx @ '': '' @
                (case json_message (resp_data r) of
                   Some v \<Rightarrow> if json_truthy v then js_String v else ax_message e
                 | None \<Rightarrow> ax_message e))
             (Some (resp_status r)))"
  using assms
  by (auto simp: handleApiError_def Let_def or_else_def String_opt_def json_message_falsy
           split: option.splits)

lemma handleApiError_without_response:
  assumes "ax_response e = None"
  shows "fst (handleApiError (AxiosError e) ctx s) =
           N8nClientError (ctx @ '': '' @ ax_message e) (Some 500)"
  using assms
  by (simp add: handleApiError_def Let_def or_else_def String_opt_def)

text \<open>
  C6. For a failed call with an upstream response of status \<open>st\<close>, \<open>handleApiError\<close>
  throws: for 401 and 403 the authentication error, whose message says that
  authentication failed, with that status; for 404 the not-found error; for every other
  status an error that carries the status and, after the text the caller supplies, the
  upstream message (the \<open>message\<close> of the response body, or the message of the failed
  request when the body has none). A failed call without any response is translated like
  the last case, with status 500. The three kinds are one class in the source,
  \<open>N8nClientError\<close>, told apart by status and message.
\<close>

theorem handleApiError_translation:
  "(ax_response e = Some r \<and> resp_status r \<noteq> 0 \<longrightarrow>
      fst (handleApiError (AxiosError e) ctx s) =
        (if resp_status r = 401 \<or> resp_status r = 403
         then N8nClientError ''Authentication failed. Please check your API key.''
                (Some (resp_status r))
         else if resp_status r = 404
         then N8nClientError ''Resource not found. Please check the ID.'' (Some 404)
         else N8nClientError
                (ctx @ '': '' @
                   (case json_message (resp_data r) of
                      Some v \<Rightarrow> if json_truthy v then js_String v else ax_message e
                    | None \<Rightarrow> ax_message e))
                (Some (resp_status r))))
   \<and> (ax_response e = None \<longrightarrow>
        fst (handleApiError (AxiosError e) ctx s) =
          N8nClientError (ctx @ '': '' @ ax_message e) (Some 500))"
  using handleApiError_with_response [of e r ctx s] handleApiError_without_response [of e ctx s]
  by blast

theorem handleApiError_translation_witness:
  "fst (handleApiError
          (AxiosError \<lparr>ax_message = ''Request failed with status code 403'',
                       ax_response = Some \<lparr>resp_status = 403, resp_data = JObj []\<rparr>,
                       ax_config = \<lparr>cfg_baseURL = ''http://n8n.local'', cfg_headers = []\<rparr>\<rparr>)
          ''Failed to list workflows'' n8n_idle)
     = N8nClientError ''Authentication failed. Please check your API key.'' (Some 403)
   \<and> fst (handleApiError
          (AxiosError \<lparr>ax_message = ''Request failed with status code 502'',
                       ax_response = Some \<lparr>resp_status = 502,
                                             resp_data = JObj [(''message'', JStr ''Bad gateway'')]\<rparr>,
                       ax_config = \<lparr>cfg_baseURL = ''http://n8n.local'', cfg_headers = []\<rparr>\<rparr>)
          ''Failed to list workflows'' n8n_idle)
     = N8nClientError ''Failed to list workflows: Bad gateway'' (Some 502)
   \<and> fst (handleApiError
          (AxiosError \<lparr>ax_message = ''connect ECONNREFUSED'', ax_response = None,
                       ax_config = \<lparr>cfg_baseURL = ''http://n8n.local'', cfg_headers = []\<rparr>\<rparr>)
          ''Failed to list workflows'' n8n_idle)
     = N8nClientError ''Failed to list workflows: connect ECONNREFUSED'' (Some 500)"
  using
    handleApiError_translation
      [of "\<lparr>ax_message = ''Request failed with status code 403'',
             ax_response = Some \<lparr>resp_status = 403, resp_data = JObj []\<rparr>,
             ax_config = \<lparr>cfg_baseURL = ''http://n8n.local'', cfg_headers = []\<rparr>\<rparr>"
          "\<lparr>resp_status = 403, resp_data = JObj []\<rparr>" "''Failed to list workflows''" n8n_idle]
    handleApiError_translation
      [of "\<lparr>ax_message = ''Request failed with status code 502'',
             ax_response = Some \<lparr>resp_status = 502,
                                   resp_data = JObj [(''message'', JStr ''Bad gateway'')]\<rparr>,
             ax_config = \<lparr>cfg_baseURL = ''http://n8n.local'', cfg_headers = []\<rparr>\<rparr>"
          "\<lparr>resp_status = 502, resp_data = JObj [(''message'', JStr ''Bad gateway'')]\<rparr>"
          "''Failed to list workflows''" n8n_idle]
    handleApiError_translation
      [of "\<lparr>ax_message = ''connect ECONNREFUSED'', ax_response = None,
             ax_config = \<lparr>cfg_baseURL = ''http://n8n.local'', cfg_headers = []\<rparr>\<rparr>"
          "\<lparr>resp_status = 0, resp_data = JNull\<rparr>" "''Failed to list workflows''" n8n_idle]
  by simp

section \<open>n8n: what reaches the console when a request fails\<close>

text \<open>
  C5. With \<open>N8N_API_KEY\<close> set to \<open>n8n_api_secret\<close> and the n8n instance answering 500,
  \<open>listWorkflows\<close> throws an error whose text does not contain the key, but
  \<open>handleApiError\<close> has passed the caught error object itself to \<open>console.error\<close>, and
  that object carries the request headers: the key is printed to standard error.
\<close>

theorem api_key_reaches_console:
  "fst (listWorkflows n8n_configured n8n_down n8n_idle) =
     Inl (N8nClientError ''Failed to list workflows: Request failed with status code 500''
            (Some 500))
   \<and> console_mentions (n_console (snd (listWorkflows n8n_configured n8n_down n8n_idle)))
        ''n8n_api_secret''"
proof -
  have run: "listWorkflows n8n_configured n8n_down n8n_idle =
     (Inl (N8nClientError ''Failed to list workflows: Request failed with status code 500''
             (Some 500)),
      \<lparr>n_console =
         [(Stderr, [LStr ''API Error:'',
            LThrown (AxiosError
              \<lparr>ax_message = ''Request failed with status code 500'',
               ax_response = Some \<lparr>resp_status = 500, resp_data = JObj []\<rparr>,
               ax_config = \<lparr>cfg_baseURL = ''http://n8n.local'',
                             cfg_headers = [(''Content-Type'', ''application/json''),
                                            (''X-N8N-API-KEY'', ''n8n_api_secret'')]\<rparr>\<rparr>)])],
       n_requests = [\<lparr>rq_method = GET, rq_url = ''/api/v1/workflows'', rq_body = None\<rparr>],
       n_tools = [''listWorkflows'']\<rparr>)"
    by (simp add: listWorkflows_def with_client_def new_N8nClient_def env_or_empty_def
          n8n_configured_def n8n_down_def n8n_idle_def client_listWorkflows_def api_call_def
          handleApiError_def Let_def or_else_def String_opt_def)
  have "sublist ''n8n_api_secret'' ''n8n_api_secret''" by simp
  then show ?thesis
    unfolding run by (simp add: console_mentions_def)
qed

section \<open>n8n: dispatch by tool name\<close>

lemma handleApiError_throws:
  "(\<exists>m st. fst (handleApiError x ctx s) = N8nClientError m st)
   \<or> fst (handleApiError x ctx s) = null_message_TypeError"
proof (cases x)
  case (AxiosError e)
  then show ?thesis by (simp add: handleApiError_def Let_def)
next
  case (OtherValue v)
  then show ?thesis by (cases v) (simp_all add: handleApiError_def Let_def)
qed (simp_all add: handleApiError_def Let_def)

lemma api_call_throws:
  assumes "fst (api_call c rq ctx w s) = Inl t"
  shows "(\<exists>m st. t = N8nClientError m st) \<or> t = null_message_TypeError"
proof (cases "w (nc_client c) rq")
  case (Inr d)
  then show ?thesis using assms by (simp add: api_call_def Let_def)
next
  case (Inl x)
  let ?s = "s\<lparr>n_requests := n_requests s @ [rq]\<rparr>"
  have "t = fst (handleApiError x ctx ?s)"
    using assms Inl by (simp add: api_call_def Let_def split_beta)
  then show ?thesis using handleApiError_throws [of x ctx ?s] by auto
qed

lemma api_call_tools [simp]: "n_tools (snd (api_call c rq ctx w s)) = n_tools s"
  by (simp add: api_call_def handleApiError_def Let_def
           split: sum.splits thrown.splits json.splits prod.splits)

lemma with_client_outcome:
  assumes "\<And>c s'. \<exists>rq ctx. method c w s' = api_call c rq ctx w s'"
  shows "tool_outcome tool s (with_client tool e method w s)"
proof (cases "new_N8nClient e")
  case (Inl err)
  then have "err = N8nClientError
      ''Missing n8n configuration. Please set N8N_BASE_URL and N8N_API_KEY environment variables.''
      None"
    by (simp add: new_N8nClient_def Let_def split: if_splits)
  then show ?thesis using Inl by (simp add: tool_outcome_def with_client_def Let_def)
next
  case (Inr c)
  let ?s = "s\<lparr>n_tools := n_tools s @ [tool]\<rparr>"
  obtain rq ctx where m: "method c w ?s = api_call c rq ctx w ?s"
    using assms by blast
  have w: "with_client tool e method w s = api_call c rq ctx w ?s"
    using Inr m by (simp add: with_client_def Let_def)
  show ?thesis
  proof (cases "fst (api_call c rq ctx w ?s)")
    case (Inl t)
    then show ?thesis using api_call_throws [OF Inl] w by (simp add: tool_outcome_def)
  next
    case (Inr d)
    then show ?thesis using w by (simp add: tool_outcome_def)
  qed
qed

lemma handleTool_switch_known:
  assumes "tr_name request \<in> set TOOL_DEFINITIONS"
  shows "\<exists>tool. tool_outcome tool s (handleTool_switch request e w s)"
proof -
  have l: "tool_outcome ''listWorkflows'' s (listWorkflows e w s)"
    unfolding listWorkflows_def
    by (rule with_client_outcome) (auto simp: client_listWorkflows_def)
  have g: "tool_outcome ''getWorkflow'' s (getWorkflow (tr_parameters request) e w s)"
    unfolding getWorkflow_def
    by (rule with_client_outcome) (auto simp: client_getWorkflow_def)
  have a: "tool_outcome ''activateWorkflow'' s (activateWorkflow (tr_parameters request) e w s)"
    unfolding activateWorkflow_def
    by (rule with_client_outcome) (auto simp: client_activateWorkflow_def)
  have d: "tool_outcome ''deactivateWorkflow'' s
             (deactivateWorkflow (tr_parameters request) e w s)"
    unfolding deactivateWorkflow_def
    by (rule with_client_outcome) (auto simp: client_deactivateWorkflow_def)
  have x: "tool_outcome ''executeWorkflow'' s (executeWorkflow (tr_parameters request) e w s)"
    unfolding executeWorkflow_def
    by (rule with_client_outcome) (auto simp: client_executeWorkflow_def)
  have le: "tool_outcome ''listWorkflowExecutions'' s
              (listWorkflowExecutions (tr_parameters request) e w s)"
    unfolding listWorkflowExecutions_def
    by (rule with_client_outcome) (auto simp: client_listWorkflowExecutions_def)
  have ge: "tool_outcome ''getExecution'' s (getExecution (tr_parameters request) e w s)"
    unfolding getExecution_def
    by (rule with_client_outcome) (auto simp: client_getExecution_def)
  from assms consider
      "tr_name request = ''mcp_list_workflows''"
    | "tr_name request = ''mcp_get_workflow''"
    | "tr_name request = ''mcp_activate_workflow''"
    | "tr_name request = ''mcp_deactivate_workflow''"
    | "tr_name request = ''mcp_execute_workflow''"
    | "tr_name request = ''mcp_list_workflow_executions''"
    | "tr_name request = ''mcp_get_execution''"
    by (auto simp: TOOL_DEFINITIONS_def)
  then show ?thesis
  proof cases
    case 1 then show ?thesis using l by (auto simp: handleTool_switch_def)
  next
    case 2 then show ?thesis using g by (auto simp: handleTool_switch_def)
  next
    case 3 then show ?thesis using a by (auto simp: handleTool_switch_def)
  next
    case 4 then show ?thesis using d by (auto simp: handleTool_switch_def)
  next
    case 5 then show ?thesis using x by (auto simp: handleTool_switch_def)
  next
    case 6 then show ?thesis using le by (auto simp: handleTool_switch_def)
  next
    case 7 then show ?thesis using ge by (auto simp: handleTool_switch_def)
  qed
qed

lemma handleTool_unknown:
  assumes "tr_name request \<notin> set TOOL_DEFINITIONS"
  shows "handleTool request e w s =
           (Inl (McpError (''Unknown tool: '' @ tr_name request) InvalidRequest), s)"
proof -
  have "handleTool_switch request e w s =
          (Inl (McpError (''Unknown tool: '' @ tr_name request) InvalidRequest), s)"
    using assms by (simp add: handleTool_switch_def TOOL_DEFINITIONS_def)
  then show ?thesis by (simp add: handleTool_def)
qed

lemma handleTool_known:
  assumes "tr_name request \<in> set TOOL_DEFINITIONS"
  shows "(\<exists>tool. n_tools (snd (handleTool request e w s)) = n_tools s @ [tool])
       \<and> (\<forall>m. fst (handleTool request e w s) \<noteq> Inl (McpError m InvalidRequest))"
proof -
  obtain tool where t: "tool_outcome tool s (handleTool_switch request e w s)"
    using handleTool_switch_known [OF assms] by blast
  obtain res s' where r: "handleTool_switch request e w s = (res, s')"
    by (cases "handleTool_switch request e w s")
  have tools: "n_tools s' = n_tools s @ [tool]" using t r by (simp add: tool_outcome_def)
  show ?thesis
  proof (cases res)
    case (Inr d)
    then show ?thesis using r tools by (auto simp: handleTool_def)
  next
    case (Inl x)
    then have "(\<exists>m st. x = N8nClientError m st) \<or> x = null_message_TypeError"
      using t r by (simp add: tool_outcome_def)
    then show ?thesis using r Inl tools
      by (auto simp: handleTool_def null_message_TypeError_def)
  qed
qed

text \<open>
  C8. For a tool name that is not in the registry \<open>TOOL_DEFINITIONS\<close>, \<open>handleTool\<close>
  throws the unknown-tool error (an \<open>McpError\<close> with code \<open>InvalidRequest\<close> naming the
  tool) and leaves the process state as it was: no tool function is entered, no request is
  sent, whatever the environment and the remote side. The error is distinct: for a name
  that is in the registry exactly one tool function is entered and no \<open>InvalidRequest\<close>
  error comes out.
\<close>

theorem handleTool_unknown_tool:
  "(tr_name request \<notin> set TOOL_DEFINITIONS \<longrightarrow>
      handleTool request e w s =
        (Inl (McpError (''Unknown tool: '' @ tr_name request) InvalidRequest), s))
   \<and> (tr_name request \<in> set TOOL_DEFINITIONS \<longrightarrow>
        (\<exists>tool. n_tools (snd (handleTool request e w s)) = n_tools s @ [tool])
        \<and> (\<forall>m. fst (handleTool request e w s) \<noteq> Inl (McpError m InvalidRequest)))"
  using handleTool_unknown handleTool_known by blast

theorem handleTool_unknown_tool_witness:
  "tr_name unknown_tool_request \<notin> set TOOL_DEFINITIONS
   \<and> handleTool unknown_tool_request n8n_configured n8n_up n8n_idle =
       (Inl (McpError ''Unknown tool: mcp_delete_workflow'' InvalidRequest), n8n_idle)
   \<and> ''mcp_list_workflows'' \<in> set TOOL_DEFINITIONS
   \<and> (\<exists>tool. n_tools (snd (handleTool
          \<lparr>tr_name = ''mcp_list_workflows'', tr_parameters = \<lparr>tp_id = [], tp_data = None\<rparr>\<rparr>
          n8n_configured n8n_up n8n_idle)) = n_tools n8n_idle @ [tool])"
proof -
  have u: "tr_name unknown_tool_request \<notin> set TOOL_DEFINITIONS"
    by (simp add: unknown_tool_request_def TOOL_DEFINITIONS_def)
  have k: "tr_name \<lparr>tr_name = ''mcp_list_workflows'',
                     tr_parameters = \<lparr>tp_id = [], tp_data = None\<rparr>\<rparr> \<in> set TOOL_DEFINITIONS"
    by (simp add: TOOL_DEFINITIONS_def)
  have n: "''Unknown tool: '' @ tr_name unknown_tool_request = ''Unknown tool: mcp_delete_workflow''"
    by (simp add: unknown_tool_request_def)
  show ?thesis
    using u k
      handleTool_unknown_tool [of unknown_tool_request n8n_configured n8n_up n8n_idle]
      handleTool_unknown_tool [of "\<lparr>tr_name = ''mcp_list_workflows'',
          tr_parameters = \<lparr>tp_id = [], tp_data = None\<rparr>\<rparr>" n8n_configured n8n_up n8n_idle]
    unfolding n by simp
qed

section \<open>Failures at the tool boundary\<close>

















section \<open>Start-up validation\<close>

lemma with_client_missing:
  assumes "env_or_empty (N8N_BASE_URL e) = [] \<or> env_or_empty (N8N_API_KEY e) = []"
  shows "with_client tool e method w s =
           (Inl (N8nClientError
              ''Missing n8n configuration. Please set N8N_BASE_URL and N8N_API_KEY environment variables.''
              None),
            s\<lparr>n_tools := n_tools s @ [tool]\<rparr>)"
  using assms by (auto simp: with_client_def new_N8nClient_def Let_def)

lemma n8n_registrations_missing:
  assumes "env_or_empty (N8N_BASE_URL e) = [] \<or> env_or_empty (N8N_API_KEY e) = []"
    and "reg \<in> set n8n_registrations"
  shows "\<exists>tool. snd reg tparams e w s =
           (Inl (N8nClientError
              ''Missing n8n configuration. Please set N8N_BASE_URL and N8N_API_KEY environment variables.''
              None),
            s\<lparr>n_tools := n_tools s @ [tool]\<rparr>)"
proof -
  note m = with_client_missing [OF assms(1)]
  from assms(2) consider
      "snd reg = (\<lambda>args. listWorkflows)"
    | "snd reg = (\<lambda>args. getWorkflow \<lparr>tp_id = tp_id args, tp_data = None\<rparr>)"
    | "snd reg = (\<lambda>args. activateWorkflow \<lparr>tp_id = tp_id args, tp_data = None\<rparr>)"
    | "snd reg = (\<lambda>args. deactivateWorkflow \<lparr>tp_id = tp_id args, tp_data = None\<rparr>)"
    | "snd reg = (\<lambda>args. executeWorkflow \<lparr>tp_id = tp_id args, tp_data = tp_data args\<rparr>)"
    | "snd reg = (\<lambda>args. listWorkflowExecutions \<lparr>tp_id = tp_id args, tp_data = None\<rparr>)"
    | "snd reg = (\<lambda>args. getExecution \<lparr>tp_id = tp_id args, tp_data = None\<rparr>)"
    unfolding n8n_registrations_def by auto
  then show ?thesis
  proof cases
    case 1 then show ?thesis by (intro exI [of _ "''listWorkflows''"]) (simp add: listWorkflows_def m)
  next
    case 2 then show ?thesis by (intro exI [of _ "''getWorkflow''"]) (simp add: getWorkflow_def m)
  next
    case 3 then show ?thesis by (intro exI [of _ "''activateWorkflow''"]) (simp add: activateWorkflow_def m)
  next
    case 4 then show ?thesis by (intro exI [of _ "''deactivateWorkflow''"]) (simp add: deactivateWorkflow_def m)
  next
    case 5 then show ?thesis by (intro exI [of _ "''executeWorkflow''"]) (simp add: executeWorkflow_def m)
  next
    case 6 then show ?thesis by (intro exI [of _ "''listWorkflowExecutions''"]) (simp add: listWorkflowExecutions_def m)
  next
    case 7 then show ?thesis by (intro exI [of _ "''getExecution''"]) (simp add: getExecution_def m)
  qed
qed

lemma handleTool_switch_missing:
  assumes "env_or_empty (N8N_BASE_URL e) = [] \<or> env_or_empty (N8N_API_KEY e) = []"
    and "tr_name request \<in> set TOOL_DEFINITIONS"
  shows "\<exists>tool. handleTool_switch request e w s =
           (Inl (N8nClientError
              ''Missing n8n configuration. Please set N8N_BASE_URL and N8N_API_KEY environment variables.''
              None),
            s\<lparr>n_tools := n_tools s @ [tool]\<rparr>)"
proof -
  note m = with_client_missing [OF assms(1)]
  from assms(2) consider
      "tr_name request = ''mcp_list_workflows''"
    | "tr_name request = ''mcp_get_workflow''"
    | "tr_name request = ''mcp_activate_workflow''"
    | "tr_name request = ''mcp_deactivate_workflow''"
    | "tr_name request = ''mcp_execute_workflow''"
    | "tr_name request = ''mcp_list_workflow_executions''"
    | "tr_name request = ''mcp_get_execution''"
    unfolding TOOL_DEFINITIONS_def by auto
  then show ?thesis
  proof cases
    case 1 then show ?thesis by (intro exI [of _ "''listWorkflows''"]) (simp add: handleTool_switch_def listWorkflows_def m)
  next
    case 2 then show ?thesis by (intro exI [of _ "''getWorkflow''"]) (simp add: handleTool_switch_def getWorkflow_def m)
  next
    case 3 then show ?thesis by (intro exI [of _ "''activateWorkflow''"]) (simp add: handleTool_switch_def activateWorkflow_def m)
  next
    case 4 then show ?thesis by (intro exI [of _ "''deactivateWorkflow''"]) (simp add: handleTool_switch_def deactivateWorkflow_def m)
  next
    case 5 then show ?thesis by (intro exI [of _ "''executeWorkflow''"]) (simp add: handleTool_switch_def executeWorkflow_def m)
  next
    case 6 then show ?thesis by (intro exI [of _ "''listWorkflowExecutions''"]) (simp add: handleTool_switch_def listWorkflowExecutions_def m)
  next
    case 7 then show ?thesis by (intro exI [of _ "''getExecution''"]) (simp add: handleTool_switch_def getExecution_def m)
  qed
qed

lemma gemini_main_key_missing:
  "key_missing ge \<Longrightarrow>
      gemini_main ge transport =
        \<lparr>pr_console =
           [(Stderr, [LStr ''Environment validation failed:'',
                      LStr ''Missing required environment variable: GEMINI_API_KEY. Please set your Google Gemini API key in the environment.'']),
            (Stderr, [LStr ''Please ensure GEMINI_API_KEY environment variable is set''])],
         pr_exit = Some 1, pr_serving = False\<rparr>"
  by (auto simp: gemini_main_def validateEnvironment_def API_KEY_ENV_VAR_def process_exit_def
        console_error_def console_log_def started_def error_text.simps String_opt_def Let_def
        split: option.splits)

lemma n8n_main_serves:
  "pr_exit (n8n_main ne None) = None \<and> pr_serving (n8n_main ne None)"
  by (simp add: n8n_main_def console_log_def started_def Let_def)

text \<open>
  C3 (as amended). The Gemini image server checks its configuration at start-up: when
  \<open>GEMINI_API_KEY\<close> is unset or blank the process writes a message naming the variable
  to standard error and exits with code 1 without ever serving. The n8n server makes no
  such check: whatever its environment, it serves as soon as the transport is connected.
  It registers seven tools, and when \<open>N8N_BASE_URL\<close> or \<open>N8N_API_KEY\<close> is missing the
  misconfiguration surfaces at the invocation of any one of them, whatever the arguments:
  the callback of every registration throws the error that names both variables, and the
  state it leaves differs from the one it found only by the record of the tool function
  entered, so no request has been sent. The same holds for the \<open>switch\<close> of the earlier
  dispatcher \<open>handleTool\<close> at every name of \<open>TOOL_DEFINITIONS\<close>.
\<close>

theorem startup_validation:
  "(key_missing ge \<longrightarrow>
      gemini_main ge transport =
        \<lparr>pr_console =
           [(Stderr, [LStr ''Environment validation failed:'',
                      LStr ''Missing required environment variable: GEMINI_API_KEY. Please set your Google Gemini API key in the environment.'']),
            (Stderr, [LStr ''Please ensure GEMINI_API_KEY environment variable is set''])],
         pr_exit = Some 1, pr_serving = False\<rparr>)
   \<and> pr_exit (n8n_main ne None) = None \<and> pr_serving (n8n_main ne None)
   \<and> map fst n8n_registrations =
       [''mcp_list_workflows'', ''mcp_get_workflow'', ''mcp_activate_workflow'',
        ''mcp_deactivate_workflow'', ''mcp_execute_workflow'', ''mcp_list_workflow_executions'',
        ''mcp_get_execution'']
   \<and> (env_or_empty (N8N_BASE_URL ne) = [] \<or> env_or_empty (N8N_API_KEY ne) = [] \<longrightarrow>
        (\<forall>reg \<in> set n8n_registrations.
           \<exists>tool. snd reg tparams ne w s =
             (Inl (N8nClientError
                ''Missing n8n configuration. Please set N8N_BASE_URL and N8N_API_KEY environment variables.''
                None),
              s\<lparr>n_tools := n_tools s @ [tool]\<rparr>))
        \<and> (tr_name request \<in> set TOOL_DEFINITIONS \<longrightarrow>
             (\<exists>tool. handleTool_switch request ne w s =
               (Inl (N8nClientError
                  ''Missing n8n configuration. Please set N8N_BASE_URL and N8N_API_KEY environment variables.''
                  None),
                s\<lparr>n_tools := n_tools s @ [tool]\<rparr>))))"
proof (intro conjI impI ballI)
  assume "key_missing ge"
  then show "gemini_main ge transport =
        \<lparr>pr_console =
           [(Stderr, [LStr ''Environment validation failed:'',
                      LStr ''Missing required environment variable: GEMINI_API_KEY. Please set your Google Gemini API key in the environment.'']),
            (Stderr, [LStr ''Please ensure GEMINI_API_KEY environment variable is set''])],
         pr_exit = Some 1, pr_serving = False\<rparr>"
    by (rule gemini_main_key_missing)
next
  show "pr_exit (n8n_main ne None) = None" using n8n_main_serves by simp
next
  show "pr_serving (n8n_main ne None)" using n8n_main_serves by simp
next
  show "map fst n8n_registrations =
       [''mcp_list_workflows'', ''mcp_get_workflow'', ''mcp_activate_workflow'',
        ''mcp_deactivate_workflow'', ''mcp_execute_workflow'', ''mcp_list_workflow_executions'',
        ''mcp_get_execution'']"
    by (simp add: n8n_registrations_def)
next
  fix reg
  assume "env_or_empty (N8N_BASE_URL ne) = [] \<or> env_or_empty (N8N_API_KEY ne) = []"
    and "reg \<in> set n8n_registrations"
  then show "\<exists>tool. snd reg tparams ne w s =
             (Inl (N8nClientError
                ''Missing n8n configuration. Please set N8N_BASE_URL and N8N_API_KEY environment variables.''
                None),
              s\<lparr>n_tools := n_tools s @ [tool]\<rparr>)"
    by (rule n8n_registrations_missing)
next
  assume "env_or_empty (N8N_BASE_URL ne) = [] \<or> env_or_empty (N8N_API_KEY ne) = []"
    and "tr_name request \<in> set TOOL_DEFINITIONS"
  then show "\<exists>tool. handleTool_switch request ne w s =
               (Inl (N8nClientError
                  ''Missing n8n configuration. Please set N8N_BASE_URL and N8N_API_KEY environment variables.''
                  None),
                s\<lparr>n_tools := n_tools s @ [tool]\<rparr>)"
    by (rule handleTool_switch_missing)
qed

theorem startup_validation_witness:
  "key_missing gemini_unconfigured
   \<and> pr_exit (gemini_main gemini_unconfigured None) = Some 1
   \<and> \<not> pr_serving (gemini_main gemini_unconfigured None)
   \<and> (env_or_empty (N8N_BASE_URL n8n_unconfigured) = []
        \<or> env_or_empty (N8N_API_KEY n8n_unconfigured) = [])
   \<and> map (\<lambda>reg. fst (snd reg \<lparr>tp_id = ''7'', tp_data = None\<rparr> n8n_unconfigured n8n_up n8n_idle))
       n8n_registrations =
       replicate 7 (Inl (N8nClientError
         ''Missing n8n configuration. Please set N8N_BASE_URL and N8N_API_KEY environment variables.''
         None))
   \<and> ''mcp_get_execution'' \<in> set TOOL_DEFINITIONS
   \<and> fst (handleTool_switch
            \<lparr>tr_name = ''mcp_get_execution'', tr_parameters = \<lparr>tp_id = ''7'', tp_data = None\<rparr>\<rparr>
            n8n_unconfigured n8n_up n8n_idle) =
       Inl (N8nClientError
         ''Missing n8n configuration. Please set N8N_BASE_URL and N8N_API_KEY environment variables.''
         None)"
proof -
  let ?missing = "N8nClientError
         ''Missing n8n configuration. Please set N8N_BASE_URL and N8N_API_KEY environment variables.''
         None"
  let ?tp = "\<lparr>tp_id = ''7'', tp_data = None\<rparr>"
  let ?rq = "\<lparr>tr_name = ''mcp_get_execution'', tr_parameters = ?tp\<rparr>"
  have k: "key_missing gemini_unconfigured"
    by (simp add: key_missing_def gemini_unconfigured_def)
  have n: "env_or_empty (N8N_BASE_URL n8n_unconfigured) = []
        \<or> env_or_empty (N8N_API_KEY n8n_unconfigured) = []"
    by (simp add: n8n_unconfigured_def env_or_empty_def)
  have d: "tr_name ?rq \<in> set TOOL_DEFINITIONS"
    by (simp add: TOOL_DEFINITIONS_def)
  note t = startup_validation [where ge = gemini_unconfigured and transport = None
      and ne = n8n_unconfigured and tparams = ?tp and w = n8n_up and s = n8n_idle
      and request = ?rq]
  have g: "gemini_main gemini_unconfigured None =
        \<lparr>pr_console =
           [(Stderr, [LStr ''Environment validation failed:'',
                      LStr ''Missing required environment variable: GEMINI_API_KEY. Please set your Google Gemini API key in the environment.'']),
            (Stderr, [LStr ''Please ensure GEMINI_API_KEY environment variable is set''])],
         pr_exit = Some 1, pr_serving = False\<rparr>"
    using t k by blast
  have r: "\<forall>reg \<in> set n8n_registrations.
             \<exists>tool. snd reg ?tp n8n_unconfigured n8n_up n8n_idle =
               (Inl ?missing, n8n_idle\<lparr>n_tools := n_tools n8n_idle @ [tool]\<rparr>)"
    using t n by blast
  have "\<forall>reg \<in> set n8n_registrations.
          fst (snd reg ?tp n8n_unconfigured n8n_up n8n_idle) = Inl ?missing"
  proof
    fix reg assume "reg \<in> set n8n_registrations"
    then obtain tool where "snd reg ?tp n8n_unconfigured n8n_up n8n_idle =
               (Inl ?missing, n8n_idle\<lparr>n_tools := n_tools n8n_idle @ [tool]\<rparr>)"
      using r by blast
    then show "fst (snd reg ?tp n8n_unconfigured n8n_up n8n_idle) = Inl ?missing" by simp
  qed
  then have m: "map (\<lambda>reg. fst (snd reg ?tp n8n_unconfigured n8n_up n8n_idle)) n8n_registrations
      = replicate 7 (Inl ?missing)"
    by (simp add: n8n_registrations_def numeral_eq_Suc)
  have h: "\<exists>tool. handleTool_switch ?rq n8n_unconfigured n8n_up n8n_idle =
               (Inl ?missing, n8n_idle\<lparr>n_tools := n_tools n8n_idle @ [tool]\<rparr>)"
    using t n d by blast
  then obtain tool where "handleTool_switch ?rq n8n_unconfigured n8n_up n8n_idle =
               (Inl ?missing, n8n_idle\<lparr>n_tools := n_tools n8n_idle @ [tool]\<rparr>)"
    by blast
  then have f: "fst (handleTool_switch ?rq n8n_unconfigured n8n_up n8n_idle) = Inl ?missing"
    by simp
  show ?thesis
    using k n m f g by (simp add: TOOL_DEFINITIONS_def)
qed

text \<open>
  The claim as first stated fails for the n8n server: with neither variable set and the
  transport connected, the process has not exited and is serving.
\<close>

theorem n8n_starts_unconfigured_counterexample:
  "pr_exit (n8n_main n8n_unconfigured None) = None \<and> pr_serving (n8n_main n8n_unconfigured None)"
  by (simp add: n8n_main_def n8n_unconfigured_def console_log_def started_def Let_def)

section \<open>Process-level handlers\<close>




end
